theory Spec2Isabelle
  imports Complex_Main "HOL-Library.Sublist"
begin

section \<open>Rate limiting in the housekeeping thread (src/src/gc.c)\<close>

text \<open>
  The configuration items \<open>config.dns.rateLimit.count.v.ui\<close> and
  \<open>config.dns.rateLimit.interval.v.ui\<close> are C \<open>unsigned int\<close>s and are modelled
  as naturals (below \<open>2 ^ 32\<close> in the code); \<open>time_t\<close> values are signed 64-bit
  integers and are modelled as \<open>int\<close>, with the reduction to 64 bits written out
  (\<open>time_t\<close> below) where the code computes with them.
\<close>

record rateLimit_config =
  rateLimit_count :: nat
  rateLimit_interval :: nat

text \<open>
  The fields of \<open>clientsData\<close> that gc.c touches. \<open>flags_rate_limited\<close> is
  \<open>client->flags.rate_limited\<close>, \<open>rate_limit\<close> the per-client counter of the
  current window, \<open>ippos\<close> the handle of the client's address string.
\<close>

record clientsData =
  ippos :: nat
  client_count :: int
  client_blockedcount :: int
  client_overTime :: "int \<Rightarrow> int"
  rate_limit :: nat
  flags_rate_limited :: bool

text \<open>The two \<open>log_info\<close> lines of \<open>reset_rate_limiting\<close>.\<close>

datatype rate_limit_log =
  Still_rate_limiting nat nat
| Ending_rate_limitation nat

text \<open>
  The body of the loop of \<open>reset_rate_limiting\<close> for one client that
  \<open>getClient\<close> found.
\<close>

definition reset_client :: "rateLimit_config \<Rightarrow> clientsData \<Rightarrow> clientsData \<times> rate_limit_log list" where
  "reset_client conf client =
     (if flags_rate_limited client then
        (if rate_limit client > rateLimit_count conf then
           (client\<lparr>rate_limit := 0\<rparr>,
            [Still_rate_limiting (ippos client) (rate_limit client)])
         else
           (client\<lparr>flags_rate_limited := False, rate_limit := 0\<rparr>,
            [Ending_rate_limitation (ippos client)]))
      else (client\<lparr>rate_limit := 0\<rparr>, []))"

text \<open>
  \<open>getClient(clientID, true)\<close> is a lookup in the client table, \<open>NULL\<close> being
  \<open>None\<close>: the table is a map from client ids to records. The loop runs over the ids
  \<open>0 \<le> clientID < counters->clients\<close> and skips the ids without a record.
\<close>

definition reset_rate_limiting_step ::
  "rateLimit_config \<Rightarrow> nat \<Rightarrow> (nat \<rightharpoonup> clientsData) \<times> rate_limit_log list
     \<Rightarrow> (nat \<rightharpoonup> clientsData) \<times> rate_limit_log list" where
  "reset_rate_limiting_step conf clientID acc =
     (case fst acc clientID of
        None \<Rightarrow> acc
      | Some client \<Rightarrow>
          (let r = reset_client conf client
           in ((fst acc)(clientID \<mapsto> fst r), snd acc @ snd r)))"

definition reset_rate_limiting ::
  "rateLimit_config \<Rightarrow> int \<Rightarrow> (nat \<rightharpoonup> clientsData)
     \<Rightarrow> (nat \<rightharpoonup> clientsData) \<times> rate_limit_log list" where
  "reset_rate_limiting conf counters_clients clients =
     fold (reset_rate_limiting_step conf) [0 ..< nat counters_clients] (clients, [])"

text \<open>
  The value that a signed 64-bit \<open>time_t\<close> holds after an operation whose exact
  result is \<open>x\<close>: \<open>x\<close> reduced modulo \<open>2 ^ 64\<close> into the range from \<open>- 2 ^ 63\<close> to
  \<open>2 ^ 63 - 1\<close>. This is what the compiled code computes on overflow, which C
  itself leaves undefined.
\<close>

definition time_t :: "int \<Rightarrow> int" where
  "time_t x = (x + 2 ^ 63) mod 2 ^ 64 - 2 ^ 63"

text \<open>
  \<open>get_rate_limit_turnaround\<close>: the division is the C division of two
  \<open>unsigned int\<close>s, which rounds down; a zero divisor has no defined result
  (\<open>None\<close>). The product \<open>(time_t)interval * how_often\<close>, the difference
  \<open>time(NULL) - lastRateLimitCleaner\<close> and the final difference are computed
  in \<open>time_t\<close>. \<open>now\<close> is the value of \<open>time(NULL)\<close>.
\<close>

definition get_rate_limit_turnaround ::
  "rateLimit_config \<Rightarrow> int \<Rightarrow> int \<Rightarrow> nat \<Rightarrow> int option" where
  "get_rate_limit_turnaround conf now lastRateLimitCleaner rate_limit_count =
     (if rateLimit_count conf = 0 then None
      else
        (let how_often = rate_limit_count div rateLimit_count conf
         in Some (time_t (time_t (int (rateLimit_interval conf) * int how_often)
                          - time_t (now - lastRateLimitCleaner)))))"

text \<open>
  The formula of the specification, in its words:
  \<open>interval * ceil(count/limit) - (now - lastReset)\<close>.
\<close>

definition spec_rate_limit_turnaround ::
  "rateLimit_config \<Rightarrow> int \<Rightarrow> int \<Rightarrow> nat \<Rightarrow> int" where
  "spec_rate_limit_turnaround conf now lastReset c =
     int (rateLimit_interval conf) * \<lceil>real c / real (rateLimit_count conf)\<rceil> - (now - lastReset)"

text \<open>
  The rate-limit part of one pass of the loop of \<open>GC_thread\<close>. The state is the
  static \<open>lastRateLimitCleaner\<close>, the client table and \<open>counters->clients\<close>; the
  cast \<open>(unsigned int)(now - lastRateLimitCleaner)\<close> reduces modulo \<open>2 ^ 32\<close>.
\<close>

record rate_limit_state =
  lastRateLimitCleaner :: int
  counters_clients :: int
  clients :: "nat \<rightharpoonup> clientsData"

definition GC_thread_rate_limit ::
  "rateLimit_config \<Rightarrow> int \<Rightarrow> rate_limit_state \<Rightarrow> rate_limit_state \<times> rate_limit_log list" where
  "GC_thread_rate_limit conf now st =
     (if rateLimit_interval conf > 0 \<and>
         nat ((now - lastRateLimitCleaner st) mod 2 ^ 32) \<ge> rateLimit_interval conf
      then
        (let r = reset_rate_limiting conf (counters_clients st) (clients st)
         in (st\<lparr>lastRateLimitCleaner := now, clients := fst r\<rparr>, snd r))
      else (st, []))"

section \<open>Garbage collection: \<open>runGC\<close> (src/src/gc.c)\<close>

text \<open>
  The status of a query. The enumeration is declared in a header that is not
  under src/; the names are those of gc.c, in the order of the specification.
\<close>

datatype query_status =
  QUERY_UNKNOWN | QUERY_GRAVITY | QUERY_FORWARDED | QUERY_CACHE | QUERY_REGEX
| QUERY_DENYLIST | QUERY_EXTERNAL_BLOCKED_IP | QUERY_EXTERNAL_BLOCKED_NULL
| QUERY_EXTERNAL_BLOCKED_NXRA | QUERY_GRAVITY_CNAME | QUERY_REGEX_CNAME
| QUERY_DENYLIST_CNAME | QUERY_RETRIED | QUERY_RETRIED_DNSSEC | QUERY_IN_PROGRESS
| QUERY_DBBUSY | QUERY_SPECIAL_DOMAIN | QUERY_CACHE_STALE

text \<open>
  The fields of \<open>queriesData\<close>, \<open>domainsData\<close> and of an entry of \<open>overTime\<close>
  that \<open>runGC\<close> uses. The time stamp of a query is a \<open>double\<close>, taken as a real
  number; the type and the reply of a query index the arrays of counters.
\<close>

record queriesData =
  q_timestamp :: real
  q_status :: query_status
  q_type :: nat
  q_reply :: nat
  q_clientID :: int
  q_domainID :: int

record domainsData =
  domain_count :: int
  domain_blockedcount :: int

record overTimeData =
  overTime_total :: int
  overTime_blocked :: int

text \<open>
  The shared memory that \<open>runGC\<close> works on. The array of queries is the list
  \<open>gc_queries\<close>, whose length is \<open>counters->queries_MAX\<close>; its first
  \<open>counters->queries\<close> entries are the live queries. The tables of clients and
  domains are maps from an id to a record, as for the rate limiter.
\<close>

record gc_data =
  counters_queries :: int
  counters_status :: "query_status \<Rightarrow> int"
  counters_querytype :: "nat \<Rightarrow> int"
  counters_reply :: "nat \<Rightarrow> int"
  gc_queries :: "queriesData list"
  gc_clients :: "nat \<rightharpoonup> clientsData"
  gc_domains :: "nat \<rightharpoonup> domainsData"
  overTime :: "int \<Rightarrow> overTimeData"
  doGC :: bool
  DBdeleteoldqueries :: bool

text \<open>
  What \<open>runGC\<close> takes from outside gc.c: the macros \<open>GCdelay\<close> and
  \<open>GCinterval\<close>, the configured \<open>maxHistory\<close>, and the functions
  \<open>getOverTimeID\<close>, \<open>change_clientcount\<close> and \<open>moveOverTimeMemory\<close>, the last
  of which works on the \<open>overTime\<close> data of the memory and of the clients.
  \<open>delete_old_queries_from_db\<close> works on the database only.
\<close>

record gc_extern =
  GCdelay :: int
  GCinterval :: int
  maxHistory :: nat
  getOverTimeID :: "real \<Rightarrow> int"
  change_clientcount :: "clientsData \<Rightarrow> int \<Rightarrow> int \<Rightarrow> int \<Rightarrow> int \<Rightarrow> clientsData"
  moveOverTimeMemory ::
    "int \<Rightarrow> (int \<Rightarrow> overTimeData) \<times> (nat \<rightharpoonup> clientsData)
       \<Rightarrow> (int \<Rightarrow> overTimeData) \<times> (nat \<rightharpoonup> clientsData)"

text \<open>The remainder of C, which has the sign of the dividend.\<close>

definition c_rem :: "int \<Rightarrow> int \<Rightarrow> int" where
  "c_rem a b = sgn a * (\<bar>a\<bar> mod \<bar>b\<bar>)"

text \<open>The minimum time stamp to keep.\<close>

definition gc_mintime :: "gc_extern \<Rightarrow> int \<Rightarrow> bool \<Rightarrow> int" where
  "gc_mintime ext now flush =
     (if flush then now
      else
        (let mintime = now - (GCdelay ext + int (maxHistory ext))
         in mintime - c_rem mintime (GCinterval ext)))"

text \<open>
  Modelled from the spec: \<open>getQuery\<close>, \<open>getClient\<close> and \<open>getDomain\<close> are
  functions of a file that is not under src/. According to the specification
  \<open>getQuery(i)\<close> returns a pointer only if \<open>i\<close> falls in the live range, else
  \<open>NULL\<close>; \<open>runGC\<close> also asks for the first slot behind the live queries, so
  the range is taken to be the slots of the array.
\<close>

definition getQuery :: "gc_data \<Rightarrow> int \<Rightarrow> queriesData option" where
  "getQuery d i =
     (if 0 \<le> i \<and> i < int (length (gc_queries d)) then Some (gc_queries d ! nat i) else None)"

definition getClient :: "gc_data \<Rightarrow> int \<Rightarrow> clientsData option" where
  "getClient d i = (if 0 \<le> i then gc_clients d (nat i) else None)"

definition getDomain :: "gc_data \<Rightarrow> int \<Rightarrow> domainsData option" where
  "getDomain d i = (if 0 \<le> i then gc_domains d (nat i) else None)"

text \<open>The cases of the \<open>switch\<close> that adjust the counters of blocked queries.\<close>

definition blocked_status :: "query_status \<Rightarrow> bool" where
  "blocked_status s \<longleftrightarrow>
     s \<in> {QUERY_GRAVITY, QUERY_DENYLIST, QUERY_REGEX, QUERY_EXTERNAL_BLOCKED_IP,
          QUERY_EXTERNAL_BLOCKED_NXRA, QUERY_EXTERNAL_BLOCKED_NULL, QUERY_GRAVITY_CNAME,
          QUERY_REGEX_CNAME, QUERY_DENYLIST_CNAME, QUERY_DBBUSY, QUERY_SPECIAL_DOMAIN}"

text \<open>
  Modelled from the spec: \<open>query_set_status\<close> is a function of a file that is
  not under src/. According to the specification a change of the status
  decrements \<open>counters.status[old]\<close> and increments \<open>counters.status[new]\<close>; the
  counters of blocked queries are adjusted by \<open>runGC\<close> itself.
\<close>

definition query_set_status :: "nat \<Rightarrow> query_status \<Rightarrow> gc_data \<Rightarrow> gc_data" where
  "query_set_status i new d =
     (let old = q_status (gc_queries d ! i);
          dec = (counters_status d)(old := counters_status d old - 1)
      in d\<lparr>counters_status := dec(new := dec new + 1),
           gc_queries := (gc_queries d)[i := (gc_queries d ! i)\<lparr>q_status := new\<rparr>]\<rparr>)"

text \<open>
  The body of the loop over the queries for the query at index \<open>i\<close>, which is
  not too new: the counters of its client, its domain, its slot of \<open>overTime\<close>,
  its reply, its type and its status are adjusted and its status is reset. The
  records behind the pointers \<open>client\<close> and \<open>domain\<close> are written back with all
  their changes.
\<close>

definition gc_remove_query :: "gc_extern \<Rightarrow> nat \<Rightarrow> queriesData \<Rightarrow> gc_data \<Rightarrow> gc_data" where
  "gc_remove_query ext i query d =
     (let blocked = blocked_status (q_status query);
          timeidx = getOverTimeID ext (q_timestamp query);
          slot = overTime d timeidx;
          slot' = slot\<lparr>overTime_total := overTime_total slot - 1,
                       overTime_blocked := (if blocked then overTime_blocked slot - 1
                                            else overTime_blocked slot)\<rparr>;
          client = map_option
                     (\<lambda>c. let c1 = change_clientcount ext c (- 1) 0 timeidx (- 1)
                          in if blocked then change_clientcount ext c1 0 (- 1) (- 1) 0 else c1)
                     (getClient d (q_clientID query));
          domain = map_option
                     (\<lambda>dm. dm\<lparr>domain_count := domain_count dm - 1,
                               domain_blockedcount := (if blocked then domain_blockedcount dm - 1
                                                       else domain_blockedcount dm)\<rparr>)
                     (getDomain d (q_domainID query));
          unknown = (if q_status query \<noteq> QUERY_UNKNOWN
                     then (counters_status d)(QUERY_UNKNOWN := counters_status d QUERY_UNKNOWN - 1)
                     else counters_status d)
      in query_set_status i QUERY_UNKNOWN
           (d\<lparr>overTime := (overTime d)(timeidx := slot'),
              gc_clients := (case client of
                               None \<Rightarrow> gc_clients d
                             | Some c \<Rightarrow> (gc_clients d)(nat (q_clientID query) \<mapsto> c)),
              gc_domains := (case domain of
                               None \<Rightarrow> gc_domains d
                             | Some dm \<Rightarrow> (gc_domains d)(nat (q_domainID query) \<mapsto> dm)),
              counters_reply := (counters_reply d)
                (q_reply query := counters_reply d (q_reply query) - 1),
              counters_querytype := (counters_querytype d)
                (q_type query := counters_querytype d (q_type query) - 1),
              counters_status := unknown\<rparr>))"

text \<open>
  The loop \<open>for(long int i=0; i < counters->queries; i++)\<close> over the indices
  that are left, with the number of queries removed so far: a slot without a
  query is passed over, and the loop ends at the first query that is newer than
  \<open>mintime\<close>.
\<close>

fun gc_loop :: "gc_extern \<Rightarrow> int \<Rightarrow> nat list \<Rightarrow> gc_data \<Rightarrow> nat \<Rightarrow> gc_data \<times> nat" where
  "gc_loop ext mintime [] d removed = (d, removed)"
| "gc_loop ext mintime (i # is) d removed =
     (case getQuery d (int i) of
        None \<Rightarrow> gc_loop ext mintime is d removed
      | Some query \<Rightarrow>
          (if q_timestamp query > real_of_int mintime then (d, removed)
           else gc_loop ext mintime is (gc_remove_query ext i query d) (removed + 1)))"

text \<open>A query after \<open>memset\<close> with zero.\<close>

definition zero_query :: queriesData where
  "zero_query =
     \<lparr>q_timestamp = 0, q_status = QUERY_UNKNOWN, q_type = 0, q_reply = 0, q_clientID = 0,
      q_domainID = 0\<rparr>"

text \<open>
  The block "Only perform memory operations when we actually removed queries":
  \<open>memmove\<close> copies \<open>counters->queries - removed\<close> queries from the slot
  \<open>removed - 1\<close> on to the start of the array, the counter is reduced, and the
  slots from the new \<open>counters->queries\<close> on are zeroed.
\<close>

definition gc_move_memory :: "nat \<Rightarrow> gc_data \<Rightarrow> gc_data" where
  "gc_move_memory removed d =
     (if removed > 0 then
        (let dest = getQuery d 0;
             src = getQuery d (int removed - 1);
             n = nat (counters_queries d - int removed);
             moved = (if dest \<noteq> None \<and> src \<noteq> None
                      then take n (drop (removed - 1) (gc_queries d)) @ drop n (gc_queries d)
                      else gc_queries d);
             d1 = d\<lparr>gc_queries := moved, counters_queries := counters_queries d - int removed\<rparr>;
             tail = getQuery d1 (counters_queries d1)
         in if tail \<noteq> None
            then d1\<lparr>gc_queries := take (nat (counters_queries d1)) (gc_queries d1)
                       @ replicate (length (gc_queries d1) - nat (counters_queries d1)) zero_query\<rparr>
            else d1)
      else d)"

text \<open>
  \<open>runGC(now, lastGCrun, flush)\<close>: the memory afterwards, and the value behind
  the pointer \<open>lastGCrun\<close> (\<open>None\<close> for \<open>NULL\<close>). Taking and releasing the lock
  and the deletion of old queries from the database leave the memory as it is.
\<close>

definition runGC ::
  "gc_extern \<Rightarrow> int \<Rightarrow> int option \<Rightarrow> bool \<Rightarrow> gc_data \<Rightarrow> gc_data \<times> int option" where
  "runGC ext now lastGCrun flush d0 =
     (let d = d0\<lparr>doGC := False\<rparr>;
          lastGCrun' = map_option
            (\<lambda>_. now - GCdelay ext - c_rem (now - GCdelay ext) (GCinterval ext)) lastGCrun;
          mintime = gc_mintime ext now flush;
          looped = gc_loop ext mintime [0 ..< nat (counters_queries d)] d 0;
          d1 = gc_move_memory (snd looped) (fst looped);
          ot = moveOverTimeMemory ext mintime (overTime d1, gc_clients d1)
      in (d1\<lparr>overTime := fst ot, gc_clients := snd ot, DBdeleteoldqueries := True\<rparr>,
          lastGCrun'))"

text \<open>The live queries: the first \<open>counters->queries\<close> entries of the array.\<close>

definition live_queries :: "gc_data \<Rightarrow> queriesData list" where
  "live_queries d = take (nat (counters_queries d)) (gc_queries d)"

text \<open>
  A memory of four slots with three live queries of one client and one domain,
  all forwarded: two old ones, with the time stamps 1699900000 and 1699900100,
  and a recent one with the time stamp 1699999000.
\<close>

definition gc_example_query :: "real \<Rightarrow> queriesData" where
  "gc_example_query t =
     \<lparr>q_timestamp = t, q_status = QUERY_FORWARDED, q_type = 1, q_reply = 4, q_clientID = 0,
      q_domainID = 0\<rparr>"

definition gc_example :: gc_data where
  "gc_example =
     \<lparr>counters_queries = 3,
      counters_status = (\<lambda>_. 0)(QUERY_FORWARDED := 3),
      counters_querytype = (\<lambda>_. 0)(1 := 3),
      counters_reply = (\<lambda>_. 0)(4 := 3),
      gc_queries = [gc_example_query 1699900000, gc_example_query 1699900100,
                    gc_example_query 1699999000, zero_query],
      gc_clients = [0 \<mapsto> \<lparr>ippos = 0, client_count = 3, client_blockedcount = 0,
                             client_overTime = (\<lambda>_. 3), rate_limit = 0,
                             flags_rate_limited = False\<rparr>],
      gc_domains = [0 \<mapsto> \<lparr>domain_count = 3, domain_blockedcount = 0\<rparr>],
      overTime = (\<lambda>_. \<lparr>overTime_total = 3, overTime_blocked = 0\<rparr>),
      doGC = True,
      DBdeleteoldqueries = False\<rparr>"

section \<open>The session table and \<open>check_client_auth\<close> (src/src/api/auth.c)\<close>

text \<open>
  Modelled from the spec: \<open>SID_SIZE\<close>, the size of the buffers that hold a session
  id or a CSRF token, is a macro of api/auth.h, which is not under src/. The
  specification gives \<open>sid[44]\<close> and \<open>csrf[44]\<close>: 43 characters and a terminator.
\<close>

definition SID_SIZE :: nat where
  "SID_SIZE = 44"

text \<open>
  Modelled from the spec: \<open>LOCALHOSTv4\<close> and \<open>LOCALHOSTv6\<close> are macros that are not
  under src/; the specification speaks of a request whose source is loopback.
\<close>

definition LOCALHOSTv4 :: string where
  "LOCALHOSTv4 = ''127.0.0.1''"

definition LOCALHOSTv6 :: string where
  "LOCALHOSTv6 = ''::1''"

text \<open>
  \<open>struct session\<close>. C strings are modelled by their content up to the terminator.
  The table \<open>auth_data[API_MAX_CLIENTS]\<close> is a list of sessions, whose length is
  \<open>API_MAX_CLIENTS\<close>.
\<close>

record session =
  used :: bool
  app :: bool
  tls_login :: bool
  tls_mixed :: bool
  login_at :: int
  valid_until :: int
  sid :: string
  csrf :: string
  remote_addr :: string
  user_agent :: string

text \<open>What auth.c looks at in an item of the JSON payload.\<close>

datatype cJSON = cJSON_String string | cJSON_Number int | cJSON_Other

text \<open>
  The items that \<open>cJSON_GetObjectItem\<close> and \<open>cJSON_GetObjectItemCaseSensitive\<close>
  find in the root of the payload under the keys sid, password and totp.
\<close>

record json_payload =
  item_sid :: "cJSON option"
  item_password :: "cJSON option"
  item_totp :: "cJSON option"

datatype http_method = HTTP_GET | HTTP_POST | HTTP_DELETE | HTTP_OTHER

text \<open>
  \<open>struct ftl_conn\<close>, as far as auth.c reads it. The values that the HTTP library
  hands out are inputs: \<open>payload_form_sid\<close> is the value of the variable sid of the
  form-encoded payload when \<open>GET_VAR\<close> returns a positive length,
  \<open>header_*\<close> are the results of \<open>mg_get_header\<close>, \<open>cookie_sid\<close> is the string
  that \<open>http_get_cookie_str\<close> stores when it returns true. \<open>snprintf_ok\<close> says
  that \<open>snprintf\<close> returns no negative value when the cookie header is written.
\<close>

record ftl_conn =
  request_remote_addr :: string
  request_is_ssl :: bool
  conn_method :: http_method
  conn_item :: "string option"
  payload_avail :: bool
  payload_form_sid :: "string option"
  payload_json :: "json_payload option"
  payload_json_error :: "string option"
  header_sid :: "string option"
  header_X_FTL_SID :: "string option"
  header_X_CSRF_TOKEN :: "string option"
  header_Authorization :: "string option"
  header_user_agent :: "string option"
  cookie_sid :: "string option"
  snprintf_ok :: bool

text \<open>
  The configuration items auth.c reads: \<open>webserver.api.localAPIauth\<close>,
  \<open>webserver.api.pwhash\<close>, \<open>webserver.api.totp_secret\<close> and the value and the
  default of \<open>webserver.session.timeout\<close>.
\<close>

record auth_config =
  localAPIauth :: bool
  pwhash :: string
  totp_secret :: string
  session_timeout_v :: nat
  session_timeout_d :: nat

text \<open>
  Modelled from the spec: the return values \<open>API_AUTH_UNAUTHORIZED\<close>,
  \<open>API_AUTH_LOCALHOST\<close> and \<open>API_AUTH_EMPTYPASS\<close> are macros of api/auth.h, which is
  not under src/. The specification calls the last two special verdicts that are
  not slots, and the source compares slot ids with \<open>> API_AUTH_UNAUTHORIZED\<close>. The
  result of \<open>check_client_auth\<close> is one of the three verdicts, a slot id
  (\<open>User_id\<close>), or the value of \<open>send_json_error\<close> (\<open>Sent_json_error\<close>).
\<close>

datatype auth_result =
  API_AUTH_UNAUTHORIZED
| API_AUTH_LOCALHOST
| API_AUTH_EMPTYPASS
| User_id nat
| Sent_json_error nat

definition is_local_api_user :: "string \<Rightarrow> bool" where
  "is_local_api_user addr \<longleftrightarrow> addr = LOCALHOSTv4 \<or> addr = LOCALHOSTv6"

text \<open>
  The session id that \<open>check_client_auth\<close> reads into its buffer \<open>sid[SID_SIZE]\<close>,
  and whether it comes from the cookie. The sources are tried in the order of the
  code: form-encoded payload (blanks turned back into \<open>+\<close>), JSON payload, the
  headers sid and X-FTL-SID, the cookie. \<open>strncpy\<close> with \<open>SID_SIZE - 1\<close> followed
  by the terminator keeps the first \<open>SID_SIZE - 1\<close> characters.
\<close>

definition sid_from_payload :: "ftl_conn \<Rightarrow> string option" where
  "sid_from_payload api =
     (if payload_avail api then
        (case payload_form_sid api of
           Some v \<Rightarrow>
             Some (take (SID_SIZE - 1) (map (\<lambda>c. if c = CHR '' '' then CHR ''+'' else c) v))
         | None \<Rightarrow>
             (case payload_json api of
                None \<Rightarrow> None
              | Some json \<Rightarrow>
                  (case item_sid json of
                     Some (cJSON_String valuestring) \<Rightarrow> Some (take (SID_SIZE - 1) valuestring)
                   | _ \<Rightarrow> None)))
      else None)"

definition sid_from_header :: "ftl_conn \<Rightarrow> string option" where
  "sid_from_header api =
     (case header_sid api of
        Some h \<Rightarrow> Some (take (SID_SIZE - 1) h)
      | None \<Rightarrow>
          (case header_X_FTL_SID api of
             Some h \<Rightarrow> Some (take (SID_SIZE - 1) h)
           | None \<Rightarrow> None))"

definition request_sid :: "ftl_conn \<Rightarrow> (string \<times> bool) option" where
  "request_sid api =
     (case sid_from_payload api of
        Some s \<Rightarrow> Some (s, False)
      | None \<Rightarrow>
          (case sid_from_header api of
             Some s \<Rightarrow> Some (s, False)
           | None \<Rightarrow>
               (case cookie_sid api of
                  Some s \<Rightarrow> Some (s, True)
                | None \<Rightarrow> None)))"


text \<open>The condition of the \<open>if\<close> in the loop over the session table.\<close>

definition session_matches :: "int \<Rightarrow> string \<Rightarrow> string \<Rightarrow> session \<Rightarrow> bool" where
  "session_matches now addr s a \<longleftrightarrow>
     used a \<and> valid_until a \<ge> now \<and> remote_addr a = addr \<and> sid a = s"

text \<open>
  The loop \<open>for(i = 0; i < API_MAX_CLIENTS; i++)\<close>: it stops at the first slot
  that matches, with \<open>return API_AUTH_UNAUTHORIZED\<close> when a CSRF token is needed
  and differs (\<open>Inl\<close>), and with \<open>user_id = i\<close> otherwise (\<open>Inr (Some i)\<close>).
\<close>

fun find_session ::
  "int \<Rightarrow> string \<Rightarrow> string \<Rightarrow> bool \<Rightarrow> string \<Rightarrow> nat \<Rightarrow> session list \<Rightarrow> unit + nat option" where
  "find_session now addr s need_csrf tok i [] = Inr None"
| "find_session now addr s need_csrf tok i (a # as) =
     (if session_matches now addr s a then
        (if need_csrf \<and> csrf a \<noteq> tok then Inl () else Inr (Some i))
      else find_session now addr s need_csrf tok (Suc i) as)"

text \<open>
  What \<open>check_client_auth\<close> returns and leaves behind: the table, the fields that
  \<open>add_request_info\<close> writes into the request, the session id and lifetime of
  the cookie written into \<open>pi_hole_extra_headers\<close>, and \<open>api->user_id\<close>.
\<close>

record auth_outcome =
  out_result :: auth_result
  out_auth_data :: "session list"
  out_csrf_token :: "string option"
  out_is_authenticated :: bool
  out_set_cookie :: "(string \<times> nat) option"
  out_user_id :: "nat option"

definition auth_fail :: "session list \<Rightarrow> auth_outcome" where
  "auth_fail auth_data =
     \<lparr>out_result = API_AUTH_UNAUTHORIZED, out_auth_data = auth_data, out_csrf_token = None,
      out_is_authenticated = False, out_set_cookie = None, out_user_id = None\<rparr>"

definition auth_bypass :: "auth_result \<Rightarrow> session list \<Rightarrow> auth_outcome" where
  "auth_bypass r auth_data =
     \<lparr>out_result = r, out_auth_data = auth_data, out_csrf_token = None,
      out_is_authenticated = True, out_set_cookie = None, out_user_id = None\<rparr>"

definition auth_success :: "auth_config \<Rightarrow> int \<Rightarrow> ftl_conn \<Rightarrow> session list \<Rightarrow> nat \<Rightarrow> auth_outcome" where
  "auth_success conf now api auth_data user_id =
     (let a = auth_data ! user_id;
          a' = a\<lparr>valid_until := now + int (session_timeout_v conf),
                 tls_mixed := (tls_mixed a \<or> request_is_ssl api \<noteq> tls_login a)\<rparr>;
          auth_data' = auth_data[user_id := a']
      in if \<not> snprintf_ok api then
           \<lparr>out_result = Sent_json_error 500, out_auth_data = auth_data', out_csrf_token = None,
            out_is_authenticated = False, out_set_cookie = None, out_user_id = None\<rparr>
         else
           \<lparr>out_result = User_id user_id, out_auth_data = auth_data',
            out_csrf_token = Some (csrf a'), out_is_authenticated = True,
            out_set_cookie = Some (sid a', session_timeout_v conf),
            out_user_id = Some user_id\<rparr>)"

definition check_client_auth ::
  "auth_config \<Rightarrow> int \<Rightarrow> ftl_conn \<Rightarrow> bool \<Rightarrow> session list \<Rightarrow> auth_outcome" where
  "check_client_auth conf now api is_api auth_data =
     (if \<not> localAPIauth conf \<and> is_local_api_user (request_remote_addr api) then
        auth_bypass API_AUTH_LOCALHOST auth_data
      else if pwhash conf = [] then
        auth_bypass API_AUTH_EMPTYPASS auth_data
      else
        (case request_sid api of
           None \<Rightarrow> auth_fail auth_data
         | Some (s, cookie_auth) \<Rightarrow>
             (let need_csrf = (cookie_auth \<and> is_api) in
              if need_csrf \<and> header_X_CSRF_TOKEN api = None then auth_fail auth_data
              else
                (let tok = (case header_X_CSRF_TOKEN api of
                              Some h \<Rightarrow> take (SID_SIZE - 1) h | None \<Rightarrow> [])
                 in case find_session now (request_remote_addr api) s need_csrf tok 0 auth_data of
                      Inl _ \<Rightarrow> auth_fail auth_data
                    | Inr None \<Rightarrow> auth_fail auth_data
                    | Inr (Some user_id) \<Rightarrow> auth_success conf now api auth_data user_id))))"

text \<open>
  A concrete setting for the examples below: a password is configured, the
  table holds one session whose session id and CSRF token have the full
  \<open>SID_SIZE - 1 = 43\<close> characters, and a request from the address of that session
  that carries neither session id nor token.
\<close>

definition example_sid :: string where
  "example_sid = ''0123456789abcdefghijABCDEFGHIJ0123456789abc''"

definition example_csrf :: string where
  "example_csrf = ''zyxwvutsrqponmlkjihgZYXWVUTSRQPONMLKJIHG012''"

definition example_auth_config :: auth_config where
  "example_auth_config =
     \<lparr>localAPIauth = True, pwhash = ''hash'', totp_secret = [], session_timeout_v = 300,
      session_timeout_d = 300\<rparr>"

definition example_session :: session where
  "example_session =
     \<lparr>used = True, app = False, tls_login = False, tls_mixed = False, login_at = 900,
      valid_until = 1200, sid = example_sid, csrf = example_csrf,
      remote_addr = ''10.0.0.7'', user_agent = []\<rparr>"

definition example_conn :: ftl_conn where
  "example_conn =
     \<lparr>request_remote_addr = ''10.0.0.7'', request_is_ssl = False, conn_method = HTTP_GET,
      conn_item = None, payload_avail = False, payload_form_sid = None, payload_json = None,
      payload_json_error = None, header_sid = None, header_X_FTL_SID = None,
      header_X_CSRF_TOKEN = None, header_Authorization = None, header_user_agent = None,
      cookie_sid = None, snprintf_ok = True\<rparr>"

section \<open>Login: \<open>api_auth\<close> (src/src/api/auth.c)\<close>

datatype password_result =
  PASSWORD_INCORRECT | PASSWORD_CORRECT | APPPASSWORD_CORRECT | PASSWORD_RATE_LIMITED

text \<open>
  The functions that auth.c calls and that are not part of it: \<open>verify_login\<close>,
  \<open>verifyTOTP\<close>, \<open>base64_decode\<close> (\<open>None\<close> for \<open>NULL\<close>), and the two strings of
  \<open>generateSID\<close> for a new session, \<open>None\<close> when \<open>getrandom\<close> fails.
\<close>

record auth_extern =
  verify_login :: "string \<Rightarrow> password_result"
  verifyTOTP :: "int \<Rightarrow> bool"
  base64_decode :: "string \<Rightarrow> string option"
  random_sid :: "string option"
  random_csrf :: "string option"

text \<open>
  What \<open>api_auth\<close> does to its surroundings, in the order in which it does it:
  the lines it writes with \<open>log_info\<close>, \<open>log_warn\<close> and \<open>log_err\<close>, and its
  calls of \<open>verify_login\<close> and \<open>verifyTOTP\<close>. The calls of \<open>log_debug\<close>, which
  write only with the debug flag of the API set, are left out.
\<close>

datatype auth_event =
  Log_info string
| Log_warn string
| Log_err string
| Call_verify_login string
| Call_verifyTOTP int

text \<open>The object session of the answer (\<open>get_session_object\<close>).\<close>

record session_object =
  so_valid :: bool
  so_totp :: bool
  so_sid :: "string option"
  so_csrf :: "string option"
  so_validity :: int

text \<open>
  The answers of \<open>api_auth\<close>: \<open>return 0\<close> for a sub-path, \<open>send_json_error\<close>, a
  JSON object with its HTTP code, and a read of \<open>auth_data\<close> outside the table,
  whose result C does not define.
\<close>

datatype auth_response =
  Sub_path
| Send_error nat string string "string option"
| Send_object nat session_object
| Read_outside_table

datatype extra_headers = Headers_unchanged | Set_cookie string nat | Delete_cookie

record auth_reply =
  reply_response :: auth_response
  reply_headers :: extra_headers
  reply_auth_data :: "session list"
  reply_events :: "auth_event list"

definition dquote :: char where
  "dquote = CHR 0x22"

definition squote :: char where
  "squote = CHR 0x27"

text \<open>A session after \<open>memset\<close> with zero.\<close>

definition zero_session :: session where
  "zero_session =
     \<lparr>used = False, app = False, tls_login = False, tls_mixed = False, login_at = 0,
      valid_until = 0, sid = [], csrf = [], remote_addr = [], user_agent = []\<rparr>"

definition delete_session :: "nat \<Rightarrow> session list \<Rightarrow> session list" where
  "delete_session user_id auth_data =
     (if user_id \<ge> length auth_data then auth_data else auth_data[user_id := zero_session])"

text \<open>
  The slot that a value of \<open>user_id\<close> above \<open>API_AUTH_UNAUTHORIZED\<close> stands for.
  The value of \<open>send_json_error\<close> that \<open>check_client_auth\<close> may hand through is
  such a value as well.
\<close>

definition slot_of :: "auth_result \<Rightarrow> nat option" where
  "slot_of user_id =
     (case user_id of User_id n \<Rightarrow> Some n | Sent_json_error n \<Rightarrow> Some n | _ \<Rightarrow> None)"

definition get_session_object ::
  "auth_config \<Rightarrow> session list \<Rightarrow> auth_result \<Rightarrow> int \<Rightarrow> session_object option" where
  "get_session_object conf auth_data user_id now =
     (let no_session = \<lparr>so_valid = False, so_totp = (totp_secret conf \<noteq> []), so_sid = None,
                         so_csrf = None, so_validity = - 1\<rparr>
      in if user_id = API_AUTH_LOCALHOST \<or> user_id = API_AUTH_EMPTYPASS then
           Some (no_session\<lparr>so_valid := True\<rparr>)
         else
           (case slot_of user_id of
              None \<Rightarrow> Some no_session
            | Some n \<Rightarrow>
                (if n \<ge> length auth_data then None
                 else if used (auth_data ! n) then
                   Some \<lparr>so_valid = True, so_totp = (totp_secret conf \<noteq> []),
                         so_sid = Some (sid (auth_data ! n)),
                         so_csrf = Some (csrf (auth_data ! n)),
                         so_validity = valid_until (auth_data ! n) - now\<rparr>
                 else Some no_session)))"

definition send_object ::
  "nat \<Rightarrow> session_object option \<Rightarrow> extra_headers \<Rightarrow> session list \<Rightarrow> auth_event list \<Rightarrow> auth_reply" where
  "send_object code obj headers auth_data events =
     \<lparr>reply_response = (case obj of None \<Rightarrow> Read_outside_table | Some ob \<Rightarrow> Send_object code ob),
      reply_headers = headers, reply_auth_data = auth_data, reply_events = events\<rparr>"

definition send_error ::
  "nat \<Rightarrow> string \<Rightarrow> string \<Rightarrow> string option \<Rightarrow> session list \<Rightarrow> auth_event list \<Rightarrow> auth_reply" where
  "send_error code key message hint auth_data events =
     \<lparr>reply_response = Send_error code key message hint, reply_headers = Headers_unchanged,
      reply_auth_data = auth_data, reply_events = events\<rparr>"

definition send_api_auth_status ::
  "auth_config \<Rightarrow> ftl_conn \<Rightarrow> session list \<Rightarrow> auth_event list \<Rightarrow> auth_result \<Rightarrow> int \<Rightarrow> auth_reply" where
  "send_api_auth_status conf api auth_data events user_id now =
     (if user_id = API_AUTH_LOCALHOST \<or> user_id = API_AUTH_EMPTYPASS then
        send_object 200 (get_session_object conf auth_data user_id now) Headers_unchanged
          auth_data events
      else
        (case slot_of user_id of
           Some n \<Rightarrow>
             (if conn_method api = HTTP_GET \<or> conn_method api = HTTP_POST then
                (if n \<ge> length auth_data then
                   send_object 200 None Headers_unchanged auth_data events
                 else if \<not> snprintf_ok api then
                   send_error 500 ''internal_error'' ''Internal server error'' None auth_data events
                 else
                   send_object 200 (get_session_object conf auth_data user_id now)
                     (Set_cookie (sid (auth_data ! n)) (session_timeout_d conf)) auth_data events)
              else if conn_method api = HTTP_DELETE then
                (let auth_data' = delete_session n auth_data
                 in send_object 410 (get_session_object conf auth_data' user_id now)
                      Delete_cookie auth_data' events)
              else
                send_object 401 (get_session_object conf auth_data user_id now)
                  Delete_cookie auth_data events)
         | None \<Rightarrow>
             send_object 401 (get_session_object conf auth_data user_id now)
               Delete_cookie auth_data events))"

text \<open>
  \<open>basic_auth\<close>: the password of an Authorization header of the scheme Basic with
  the user name pi-hole.
\<close>

definition basic_auth :: "auth_extern \<Rightarrow> ftl_conn \<Rightarrow> string option" where
  "basic_auth ext api =
     (case header_Authorization api of
        None \<Rightarrow> None
      | Some auth_header \<Rightarrow>
          (if take 6 auth_header \<noteq> ''Basic '' then None
           else
             (case base64_decode ext (drop 6 auth_header) of
                None \<Rightarrow> None
              | Some decoded \<Rightarrow>
                  (let username = takeWhile (\<lambda>c. c \<noteq> CHR '':'') decoded;
                       rest = dropWhile (\<lambda>c. c \<noteq> CHR '':'') decoded
                   in if rest = [] then None
                      else if username \<noteq> ''pi-hole'' then None
                      else Some (tl rest)))))"

text \<open>
  Modelled from the spec: the sizes of the fields \<open>remote_addr\<close> and
  \<open>user_agent\<close> of a session are part of a header that is not under src/; the
  specification gives \<open>remote_addr[48]\<close> and \<open>user_agent[128]\<close>.
\<close>

definition new_session ::
  "auth_config \<Rightarrow> auth_extern \<Rightarrow> int \<Rightarrow> ftl_conn \<Rightarrow> password_result \<Rightarrow> session \<Rightarrow> session" where
  "new_session conf ext now api result a =
     a\<lparr>used := True,
       login_at := now,
       valid_until := now + int (session_timeout_v conf),
       remote_addr := take 47 (request_remote_addr api),
       user_agent := (case header_user_agent api of None \<Rightarrow> [] | Some ua \<Rightarrow> take 127 ua),
       tls_login := request_is_ssl api,
       tls_mixed := False,
       app := (result = APPPASSWORD_CORRECT),
       sid := (case random_sid ext of None \<Rightarrow> sid a | Some r \<Rightarrow> r),
       csrf := (case random_csrf ext of None \<Rightarrow> csrf a | Some r \<Rightarrow> r)\<rparr>"

text \<open>
  The loop that looks for a free slot: an expired session is deleted, and the
  first slot that is not in use then takes the new session.
\<close>

fun find_free_slot ::
  "(session \<Rightarrow> session) \<Rightarrow> int \<Rightarrow> nat \<Rightarrow> session list \<Rightarrow> session list \<times> nat option" where
  "find_free_slot new now i [] = ([], None)"
| "find_free_slot new now i (a # as) =
     (let a1 = (if used a \<and> valid_until a < now then zero_session else a)
      in if \<not> used a1 then (new a1 # as, Some i)
         else (let r = find_free_slot new now (Suc i) as in (a1 # fst r, snd r)))"

definition generateSID_events :: "auth_extern \<Rightarrow> auth_event list" where
  "generateSID_events ext =
     (if random_sid ext = None then [Log_err ''getrandom() failed in generateSID()''] else [])
     @ (if random_csrf ext = None then [Log_err ''getrandom() failed in generateSID()''] else [])"

definition is_empty_password :: "string option \<Rightarrow> bool" where
  "is_empty_password password \<longleftrightarrow> password = None \<or> password = Some []"

text \<open>
  The part of \<open>api_auth\<close> from the comment "else: Login attempt" on, where the
  password is logged and verified.
\<close>

definition login_attempt ::
  "auth_config \<Rightarrow> auth_extern \<Rightarrow> int \<Rightarrow> ftl_conn \<Rightarrow> session list \<Rightarrow> auth_result
     \<Rightarrow> string option \<Rightarrow> auth_reply" where
  "login_attempt conf ext now api auth_data user_id password =
     (let empty_password = (pwhash conf = []);
          shown = (case password of None \<Rightarrow> ''(null)'' | Some p \<Rightarrow> p);
          ev1 = [Log_info (''Password: '' @ [dquote] @ shown @ [dquote])];
          skip = (empty_password \<and> is_empty_password password);
          result = (if skip then PASSWORD_CORRECT
                    else verify_login ext (case password of None \<Rightarrow> [] | Some p \<Rightarrow> p));
          ev2 = ev1 @ (if skip then []
                       else [Call_verify_login (case password of None \<Rightarrow> [] | Some p \<Rightarrow> p)])
      in if result = PASSWORD_CORRECT \<or> result = APPPASSWORD_CORRECT then
           (let json_totp = (case payload_json api of None \<Rightarrow> None | Some j \<Rightarrow> item_totp j);
                need_totp = (totp_secret conf \<noteq> [] \<and> result \<noteq> APPPASSWORD_CORRECT);
                valueint = (case json_totp of Some (cJSON_Number n) \<Rightarrow> n | _ \<Rightarrow> 0)
            in if need_totp \<and> json_totp = None then
                 send_error 400 ''bad_request'' ''No 2FA token found in JSON payload'' None
                   auth_data ev2
               else if need_totp \<and> \<not> verifyTOTP ext valueint then
                 send_error 401 ''unauthorized'' ''Invalid 2FA token'' None auth_data
                   (ev2 @ [Call_verifyTOTP valueint])
               else
                 (let ev3 = ev2 @ (if need_totp then [Call_verifyTOTP valueint] else []);
                      r = find_free_slot (new_session conf ext now api result) now 0 auth_data;
                      user_id' = (case snd r of None \<Rightarrow> user_id | Some i \<Rightarrow> User_id i);
                      ev4 = ev3 @ (if snd r = None then [] else generateSID_events ext)
                              @ (if user_id' = API_AUTH_UNAUTHORIZED
                                 then [Log_warn ''No free API seats available, not authenticating client'']
                                 else [])
                  in send_api_auth_status conf api (fst r) ev4 user_id' now))
         else if result = PASSWORD_RATE_LIMITED then
           send_error 429 ''too_many_requests'' ''Too many requests''
             (Some ''login rate limiting'') auth_data ev2
         else send_api_auth_status conf api auth_data ev2 user_id now)"

text \<open>
  The password of the JSON body of a POST request, or the answer 400 when the
  body or the password is missing or is no string (\<open>Inl\<close>); no password for the
  other methods.
\<close>

definition posted_password :: "ftl_conn \<Rightarrow> session list \<Rightarrow> auth_reply + string option" where
  "posted_password api auth_data =
     (if conn_method api = HTTP_POST then
        (case payload_json api of
           None \<Rightarrow>
             (case payload_json_error api of
                None \<Rightarrow>
                  Inl (send_error 400 ''bad_request'' ''No request body data'' None auth_data [])
              | Some e \<Rightarrow>
                  Inl (send_error 400 ''bad_request''
                         ''Invalid request body data (no valid JSON), error before hint''
                         (Some e) auth_data []))
         | Some j \<Rightarrow>
             (case item_password j of
                None \<Rightarrow>
                  Inl (send_error 400 ''bad_request'' ''No password found in JSON payload''
                         None auth_data [])
              | Some (cJSON_String valuestring) \<Rightarrow> Inr (Some valuestring)
              | Some _ \<Rightarrow>
                  Inl (send_error 400 ''bad_request''
                         (''Field password has to be of type '' @ [squote] @ ''string''
                            @ [squote])
                         None auth_data [])))
      else Inr None)"

definition api_auth ::
  "auth_config \<Rightarrow> auth_extern \<Rightarrow> int \<Rightarrow> ftl_conn \<Rightarrow> session list \<Rightarrow> auth_reply" where
  "api_auth conf ext now api auth_data0 =
     (if conn_item api \<noteq> None \<and> conn_item api \<noteq> Some [] then
        \<lparr>reply_response = Sub_path, reply_headers = Headers_unchanged,
         reply_auth_data = auth_data0, reply_events = []\<rparr>
      else
        (let checked = check_client_auth conf now api False auth_data0;
             user_id = out_result checked;
             auth_data = out_auth_data checked;
             empty_password = (pwhash conf = [])
         in case posted_password api auth_data of
              Inl reply \<Rightarrow> reply
            | Inr json_password \<Rightarrow>
                (let password = (if is_empty_password json_password then basic_auth ext api
                                 else json_password)
                 in if user_id \<noteq> API_AUTH_UNAUTHORIZED \<and> is_empty_password password then
                      send_api_auth_status conf api auth_data [] user_id now
                    else if conn_method api = HTTP_DELETE then
                      send_api_auth_status conf api auth_data [] user_id now
                    else if password = None \<and> \<not> empty_password then
                      send_api_auth_status conf api auth_data [] user_id now
                    else login_attempt conf ext now api auth_data user_id password)))"

section \<open>The query log endpoint \<open>api_queries\<close> (src/src/api/queries.c)\<close>

text \<open>
  The variables of the query string, as the helpers of the HTTP layer deliver
  them (\<open>get_bool_var\<close>, \<open>get_int_var\<close>, \<open>get_uint_var\<close>, \<open>GET_VAR\<close> followed
  by \<open>sscanf\<close>): \<open>None\<close> when the helper leaves the variable of the function
  untouched. For the cursor, \<open>var_cursor_ret\<close> is the return value of
  \<open>get_ulong_var_msg\<close>, \<open>var_cursor_unum\<close> the number it stores (0 when it
  stores none) and \<open>var_cursor_msg\<close> its message. The variables from and until
  only add text to the SQL statement and are left out.
\<close>

record query_vars =
  var_disk :: "bool option"
  var_domain :: "string option"
  var_upstream :: "string option"
  var_client :: "string option"
  var_draw :: "int option"
  var_length :: "int option"
  var_start :: "nat option"
  var_cursor_ret :: bool
  var_cursor_unum :: nat
  var_cursor_msg :: "string option"
  var_type :: "string option"
  var_status :: "string option"
  var_reply :: "string option"
  var_dnssec :: "string option"

text \<open>The calls into the SQL engine that can fail.\<close>

datatype db_stage =
  Attach_disk | Prepare | Bind_domain | Bind_client | Bind_upstream
| Bind_type | Bind_status | Bind_reply | Bind_dnssec | Detach_disk

text \<open>
  What \<open>api_queries\<close> gets from its surroundings: whether the privacy level is
  at least \<open>PRIVACY_MAXIMUM\<close>, the result of \<open>check_client_auth\<close>, the three
  numbers of \<open>db_counts\<close>, the error string of each call into the SQL engine
  that fails, the tables of names behind \<open>get_query_type_str\<close>,
  \<open>get_query_status_str\<close>, \<open>get_query_reply_str\<close> and \<open>get_query_dnssec_str\<close>
  (in the order of the enumerations), and the rows that \<open>sqlite3_step\<close> yields
  for the prepared statement, in their order. A row is its column \<open>id\<close>, an
  \<open>sqlite3_int64\<close>, with the other columns. The counters of the loop are
  \<open>unsigned int\<close>; the model takes fewer than \<open>2 ^ 32\<close> rows.
\<close>

record 'a queries_env =
  privacylevel_maximum :: bool
  client_auth :: auth_result
  largest_db_index :: nat
  mem_dbnum :: nat
  disk_dbnum :: nat
  sqlite_error :: "db_stage \<Rightarrow> string option"
  type_strs :: "string list"
  status_strs :: "string list"
  reply_strs :: "string list"
  dnssec_strs :: "string list"
  db_rows :: "(int \<times> 'a) list"

text \<open>The JSON object of the answer.\<close>

record 'a queries_object =
  queries :: "(int \<times> 'a) list"
  cursor :: int
  recordsTotal :: nat
  recordsFiltered :: nat
  draw :: int

datatype 'a queries_response =
  Json_error nat string string "string option"
| Json_unauthorized
| Json_minimal
| Json_queries "'a queries_object"

definition tolower :: "char \<Rightarrow> char" where
  "tolower c = (let n = (of_char c :: nat) in if 65 \<le> n \<and> n \<le> 90 then char_of (n + 32) else c)"

definition strcasecmp_eq :: "string \<Rightarrow> string \<Rightarrow> bool" where
  "strcasecmp_eq a b \<longleftrightarrow> map tolower a = map tolower b"

text \<open>
  The loops \<open>for(type = TYPE_A; type < TYPE_MAX; type++)\<close> and their likes: the
  first index of the table whose name equals the given one without regard to
  case, \<open>None\<close> when the loop reaches the end.
\<close>

fun enum_lookup :: "string \<Rightarrow> nat \<Rightarrow> string list \<Rightarrow> nat option" where
  "enum_lookup name i [] = None"
| "enum_lookup name i (s # ss) =
     (if strcasecmp_eq name s then Some i else enum_lookup name (Suc i) ss)"

text \<open>The cast \<open>(unsigned long)id\<close> of a 64-bit signed row id.\<close>

definition ulong :: "int \<Rightarrow> nat" where
  "ulong i = nat (i mod 2 ^ 64)"

text \<open>
  The handling of the variable cursor: the cursor to use and \<open>cursor_set\<close>, or
  the answer 400.
\<close>

definition request_cursor ::
  "nat \<Rightarrow> query_vars option \<Rightarrow> 'a queries_response + nat \<times> bool" where
  "request_cursor largest vars =
     (case vars of
        None \<Rightarrow> Inr (largest, False)
      | Some v \<Rightarrow>
          (if var_cursor_ret v \<or> var_cursor_msg v \<noteq> None then
             (if var_cursor_unum v \<le> largest \<and> var_cursor_msg v = None then
                Inr (var_cursor_unum v, True)
              else
                Inl (Json_error 400 ''bad_request'' ''Requested cursor is invalid''
                       (Some (case var_cursor_msg v of
                                None \<Rightarrow> ''Cursor larger than largest database index''
                              | Some msg \<Rightarrow> msg))))
           else Inr (largest, False)))"

text \<open>Binding a text parameter: only when the filter is part of the statement.\<close>

definition bind_text ::
  "'a queries_env \<Rightarrow> string option \<Rightarrow> db_stage \<Rightarrow> string \<Rightarrow> 'a queries_response option" where
  "bind_text env var stage message =
     (case var of
        None \<Rightarrow> None
      | Some _ \<Rightarrow>
          (case sqlite_error env stage of
             None \<Rightarrow> None
           | Some err \<Rightarrow> Some (Json_error 500 ''internal_error'' message (Some err))))"

text \<open>Binding the number of an enumeration value given by name.\<close>

definition bind_enum ::
  "'a queries_env \<Rightarrow> string option \<Rightarrow> string list \<Rightarrow> db_stage \<Rightarrow> string \<Rightarrow> string
     \<Rightarrow> 'a queries_response option" where
  "bind_enum env var table stage invalid message =
     (case var of
        None \<Rightarrow> None
      | Some name \<Rightarrow>
          (case enum_lookup name 0 table of
             None \<Rightarrow> Some (Json_error 400 ''bad_request'' invalid (Some name))
           | Some _ \<Rightarrow>
               (case sqlite_error env stage of
                  None \<Rightarrow> None
                | Some err \<Rightarrow> Some (Json_error 500 ''internal_error'' message (Some err)))))"

definition first_error :: "'b option list \<Rightarrow> 'b option" where
  "first_error rs = (case List.map_filter id rs of [] \<Rightarrow> None | e # _ \<Rightarrow> Some e)"

definition bind_filters :: "'a queries_env \<Rightarrow> query_vars option \<Rightarrow> 'a queries_response option" where
  "bind_filters env vars =
     (case vars of
        None \<Rightarrow> None
      | Some v \<Rightarrow>
          first_error
            [bind_text env (var_domain v) Bind_domain
               ''Internal server error, failed to bind domain to SQL query'',
             bind_text env (var_client v) Bind_client
               ''Internal server error, failed to bind client to SQL query'',
             bind_text env (var_upstream v) Bind_upstream
               ''Internal server error, failed to bind upstream to SQL query'',
             bind_enum env (var_type v) (type_strs env) Bind_type
               ''Requested type is invalid''
               ''Internal server error, failed to bind type to SQL query'',
             bind_enum env (var_status v) (status_strs env) Bind_status
               ''Requested status is invalid''
               ''Internal server error, failed to bind status to SQL query'',
             bind_enum env (var_reply v) (reply_strs env) Bind_reply
               ''Requested reply is invalid''
               ''Internal server error, failed to bind reply to SQL query'',
             bind_enum env (var_dnssec v) (dnssec_strs env) Bind_dnssec
               ''Requested dnssec is invalid''
               ''Internal server error, failed to bind dnssec to SQL query''])"

text \<open>
  The loop \<open>while((rc = sqlite3_step(read_stmt)) == SQLITE_ROW)\<close>: its variables
  and the array of items built so far.
\<close>

record 'a rows_state =
  added :: nat
  records :: nat
  firstID :: int
  items :: "(int \<times> 'a) list"

definition row_step :: "nat \<Rightarrow> nat \<Rightarrow> int \<Rightarrow> int \<times> 'a \<Rightarrow> 'a rows_state \<Rightarrow> 'a rows_state" where
  "row_step cur start len row st =
     (let st1 = st\<lparr>firstID := (if firstID st = - 1 then fst row else firstID st),
                   records := records st + 1\<rparr>
      in if ulong (fst row) > cur then st1
         else if start > 0 \<and> start \<ge> records st1 then st1
         else if len > 0 \<and> added st1 \<ge> nat len then st1
         else st1\<lparr>items := items st1 @ [row], added := added st1 + 1\<rparr>)"

definition rows_loop :: "nat \<Rightarrow> nat \<Rightarrow> int \<Rightarrow> (int \<times> 'a) list \<Rightarrow> 'a rows_state" where
  "rows_loop cur start len rows =
     fold (row_step cur start len) rows \<lparr>added = 0, records = 0, firstID = - 1, items = []\<rparr>"

text \<open>
  A variable of the function that starts with a default and is overwritten when
  the query string exists and holds the variable.
\<close>

definition var_or :: "'b \<Rightarrow> (query_vars \<Rightarrow> 'b option) \<Rightarrow> query_vars option \<Rightarrow> 'b" where
  "var_or dflt var vars =
     (case vars of
        None \<Rightarrow> dflt
      | Some v \<Rightarrow> (case var v of None \<Rightarrow> dflt | Some x \<Rightarrow> x))"

text \<open>
  The part of \<open>api_queries\<close> after the handling of the cursor: attaching the
  disk database, preparing the statement, binding, the loop over the rows, the
  JSON object and detaching.
\<close>

definition run_statement ::
  "'a queries_env \<Rightarrow> query_vars option \<Rightarrow> nat \<Rightarrow> bool \<Rightarrow> 'a queries_response" where
  "run_statement env vars cur cursor_set =
     (let disk = var_or False var_disk vars;
          draw_var = var_or 0 var_draw vars;
          len = var_or 100 var_length vars;
          start = var_or 0 var_start vars
      in if disk \<and> sqlite_error env Attach_disk \<noteq> None then
           Json_error 500 ''internal_error''
             ''Internal server error, cannot attach disk database''
             (sqlite_error env Attach_disk)
         else if sqlite_error env Prepare \<noteq> None then
           Json_error 500 ''internal_error''
             ''Internal server error, failed to prepare SQL query''
             (sqlite_error env Prepare)
         else
           (case bind_filters env vars of
              Some err \<Rightarrow> err
            | None \<Rightarrow>
                (let st = rows_loop cur start len (db_rows env);
                     json = \<lparr>queries = items st,
                             cursor = (if cursor_set then int cur else firstID st),
                             recordsTotal = (if disk then disk_dbnum env else mem_dbnum env),
                             recordsFiltered = records st,
                             draw = draw_var\<rparr>
                 in if disk \<and> sqlite_error env Detach_disk \<noteq> None then
                      Json_error 500 ''internal_error''
                        ''Internal server error, cannot detach disk database''
                        (sqlite_error env Detach_disk)
                    else Json_queries json)))"

definition api_queries :: "'a queries_env \<Rightarrow> query_vars option \<Rightarrow> 'a queries_response" where
  "api_queries env vars =
     (if privacylevel_maximum env then Json_minimal
      else if client_auth env = API_AUTH_UNAUTHORIZED then Json_unauthorized
      else
        (case request_cursor (largest_db_index env) vars of
           Inl err \<Rightarrow> err
         | Inr (cur, cursor_set) \<Rightarrow> run_statement env vars cur cursor_set))"

text \<open>
  For the statements below: a list cut to \<open>len\<close> elements when \<open>len\<close> is
  positive, and whole otherwise; and the calls into the SQL engine that
  \<open>api_queries\<close> makes after the cursor all succeeding, with every filter name
  known.
\<close>

definition limit_rows :: "int \<Rightarrow> 'b list \<Rightarrow> 'b list" where
  "limit_rows len xs = (if 0 < len then take (nat len) xs else xs)"

definition statement_runs :: "'a queries_env \<Rightarrow> query_vars option \<Rightarrow> bool" where
  "statement_runs env vars \<longleftrightarrow>
     (var_or False var_disk vars \<longrightarrow>
        sqlite_error env Attach_disk = None \<and> sqlite_error env Detach_disk = None)
     \<and> sqlite_error env Prepare = None \<and> bind_filters env vars = None"

text \<open>
  A small concrete setting for the examples below: a client with a session, a
  database whose largest index is 10 and whose statement yields the two rows
  with the ids 10 and 9, and a query string without variables.
\<close>

definition example_env :: "unit queries_env" where
  "example_env =
     \<lparr>privacylevel_maximum = False, client_auth = User_id 0, largest_db_index = 10,
      mem_dbnum = 2, disk_dbnum = 5, sqlite_error = (\<lambda>_. None),
      type_strs = [''A'', ''AAAA''], status_strs = [''UNKNOWN'', ''GRAVITY''],
      reply_strs = [''UNKNOWN'', ''NODATA''], dnssec_strs = [''UNKNOWN'', ''SECURE''],
      db_rows = [(10, ()), (9, ())]\<rparr>"

definition example_vars :: query_vars where
  "example_vars =
     \<lparr>var_disk = None, var_domain = None, var_upstream = None, var_client = None,
      var_draw = None, var_length = None, var_start = None, var_cursor_ret = False,
      var_cursor_unum = 0, var_cursor_msg = None, var_type = None, var_status = None,
      var_reply = None, var_dnssec = None\<rparr>"

section \<open>The log parser \<open>process_pihole_log\<close> (src/parser.c)\<close>

text \<open>
  A line of the log is the string that \<open>fgets\<close> delivers, with its newline. The
  lines are taken to be shorter than the two buffers of 1024 characters, and
  the log not to grow while it is read. \<open>strstr\<close> returns the rest of the
  haystack from the first occurrence of the needle on, \<open>None\<close> for \<open>NULL\<close>.
\<close>

fun strstr :: "string \<Rightarrow> string \<Rightarrow> string option" where
  "strstr [] needle = (if needle = [] then Some [] else None)"
| "strstr (c # cs) needle =
     (if prefix needle (c # cs) then Some (c # cs) else strstr cs needle)"

definition found :: "string \<Rightarrow> string \<Rightarrow> bool" where
  "found haystack needle \<longleftrightarrow> strstr haystack needle \<noteq> None"

text \<open>
  The fields of the global \<open>counters\<close> that parser.c uses. They are C \<open>int\<close>s
  that start at zero and are only incremented; the model takes naturals, without
  overflow. \<open>c_forwarded\<close>, \<open>c_domains\<close> and \<open>c_clients\<close> count the entries of
  the tables of upstream servers, domains and clients.
\<close>

record countersStruct =
  c_queries :: nat
  c_unknown :: nat
  c_blocked :: nat
  c_wildcardblocked :: nat
  c_cached :: nat
  c_IPv4 :: nat
  c_IPv6 :: nat
  c_PTR :: nat
  c_SRV :: nat
  c_domains :: nat
  c_clients :: nat
  c_forwarded :: nat
  c_overtime :: nat

record log_query =
  lq_timestamp :: int
  lq_type :: nat
  lq_status :: nat
  lq_domainID :: nat
  lq_clientID :: nat

record log_domain =
  ld_domain :: string
  ld_count :: nat
  ld_blockedcount :: nat

record log_client =
  lc_ip :: string
  lc_name :: string
  lc_count :: nat

record log_forward =
  lf_ip :: string
  lf_name :: string
  lf_count :: nat

record log_overTime =
  lo_total :: nat
  lo_blocked :: nat

text \<open>
  The global arrays are maps from an index to an entry: \<open>memory_check\<close> makes
  them large enough before an entry is written.
\<close>

record ftl_data =
  counters :: countersStruct
  log_queries :: "nat \<Rightarrow> log_query"
  log_domains :: "nat \<Rightarrow> log_domain"
  log_clients :: "nat \<Rightarrow> log_client"
  log_forwarded :: "nat \<Rightarrow> log_forward"
  log_overTime :: "nat \<Rightarrow> log_overTime"

text \<open>
  The functions of the C library that the parser calls: the hour and minute
  that \<open>strptime\<close> reads from the first 15 characters of a line, the value of
  \<open>mktime\<close> for them in the current year, and the host name that
  \<open>gethostbyaddr\<close> finds for an address (\<open>None\<close> for \<open>NULL\<close>); and the global
  flag \<open>initialscan\<close>.
\<close>

record parser_extern =
  tm_hour :: "string \<Rightarrow> nat"
  tm_min :: "string \<Rightarrow> nat"
  mktime :: "string \<Rightarrow> int"
  gethostbyaddr :: "string \<Rightarrow> string option"
  initialscan :: bool

definition newline :: string where
  "newline = [CHR 0x0A]"

text \<open>
  The status that a following line gives to the query of a domain, when it
  gives one: 1 blocked by gravity.list, 2 forwarded, 3 cached or local, 4
  blocked by a wildcard.
\<close>

definition line_status :: "string \<Rightarrow> string \<Rightarrow> nat option" where
  "line_status readbuffer2 domain =
     (if found readbuffer2 domain then
        (if found readbuffer2 ''gravity.list '' then Some 1
         else if found readbuffer2 ''forwarded '' then Some 2
         else if found readbuffer2 ''cached '' \<or> found readbuffer2 ''local.list''
                 \<or> found readbuffer2 ''hostname.list'' \<or> found readbuffer2 ''/etc/hosts''
              then Some 3
         else if found readbuffer2 ''config '' then Some 4
         else None)
      else None)"

fun scan_status :: "string \<Rightarrow> string list \<Rightarrow> nat" where
  "scan_status domain [] = 0"
| "scan_status domain (l # ls) =
     (case line_status l domain of Some s \<Rightarrow> s | None \<Rightarrow> scan_status domain ls)"

text \<open>
  The loop \<open>for(i=0; i<200; i++)\<close> over the lines that follow the query. When
  it reaches the end of the log the loop goes back to the line after the query
  once and reads the same lines again, to the same effect.
\<close>

definition find_status :: "string \<Rightarrow> string list \<Rightarrow> nat" where
  "find_status domain following = scan_status domain (take 200 following)"

text \<open>The searches through the tables of known domains, clients and upstream servers.\<close>

definition find_domain :: "ftl_data \<Rightarrow> string \<Rightarrow> nat option" where
  "find_domain d domain =
     List.find (\<lambda>i. ld_domain (log_domains d i) = domain) [0 ..< c_domains (counters d)]"

definition find_client :: "ftl_data \<Rightarrow> string \<Rightarrow> nat option" where
  "find_client d client =
     List.find (\<lambda>i. lc_ip (log_clients d i) = client) [0 ..< c_clients (counters d)]"

definition find_forward :: "ftl_data \<Rightarrow> string \<Rightarrow> nat option" where
  "find_forward d forward =
     List.find (\<lambda>i. lf_ip (log_forwarded d i) = forward) [0 ..< c_forwarded (counters d)]"

definition add_domain :: "string \<Rightarrow> ftl_data \<Rightarrow> ftl_data \<times> nat" where
  "add_domain domain d =
     (case find_domain d domain of
        Some i \<Rightarrow>
          (d\<lparr>log_domains := (log_domains d)
                (i := (log_domains d i)\<lparr>ld_count := ld_count (log_domains d i) + 1\<rparr>)\<rparr>, i)
      | None \<Rightarrow>
          (let domainID = c_domains (counters d)
           in (d\<lparr>log_domains := (log_domains d)
                    (domainID := \<lparr>ld_domain = domain, ld_count = 1, ld_blockedcount = 0\<rparr>),
                  counters := (counters d)\<lparr>c_domains := domainID + 1\<rparr>\<rparr>, domainID)))"

definition add_client :: "parser_extern \<Rightarrow> string \<Rightarrow> ftl_data \<Rightarrow> ftl_data \<times> nat" where
  "add_client ext client d =
     (case find_client d client of
        Some i \<Rightarrow>
          (d\<lparr>log_clients := (log_clients d)
                (i := (log_clients d i)\<lparr>lc_count := lc_count (log_clients d i) + 1\<rparr>)\<rparr>, i)
      | None \<Rightarrow>
          (let clientID = c_clients (counters d)
           in (d\<lparr>log_clients := (log_clients d)
                    (clientID := \<lparr>lc_ip = client,
                                  lc_name = (case gethostbyaddr ext client of
                                               None \<Rightarrow> [] | Some h \<Rightarrow> h),
                                  lc_count = 1\<rparr>),
                  counters := (counters d)\<lparr>c_clients := clientID + 1\<rparr>\<rparr>, clientID)))"

text \<open>The \<open>switch(status)\<close> that follows the admission of a query.\<close>

definition count_status :: "nat \<Rightarrow> nat \<Rightarrow> nat \<Rightarrow> ftl_data \<Rightarrow> ftl_data" where
  "count_status status timeidx domainID d =
     (let c = counters d;
          blocked_overTime = (log_overTime d)
            (timeidx := (log_overTime d timeidx)
               \<lparr>lo_blocked := lo_blocked (log_overTime d timeidx) + 1\<rparr>)
      in if status = 0 then d\<lparr>counters := c\<lparr>c_unknown := c_unknown c + 1\<rparr>\<rparr>
         else if status = 1 then
           d\<lparr>counters := c\<lparr>c_blocked := c_blocked c + 1\<rparr>,
             log_overTime := blocked_overTime,
             log_domains := (log_domains d)
               (domainID := (log_domains d domainID)
                  \<lparr>ld_blockedcount := ld_blockedcount (log_domains d domainID) + 1\<rparr>)\<rparr>
         else if status = 2 then d
         else if status = 3 then d\<lparr>counters := c\<lparr>c_cached := c_cached c + 1\<rparr>\<rparr>
         else if status = 4 then
           d\<lparr>counters := c\<lparr>c_wildcardblocked := c_wildcardblocked c + 1\<rparr>,
             log_overTime := blocked_overTime\<rparr>
         else d)"

text \<open>
  The domain and the client of a query line: the text between \<open>"] "\<close> and
  \<open>" from"\<close>, and the text from six characters after the start of \<open>" from"\<close>
  to the newline. \<open>None\<close> when one of the three \<open>strstr\<close> returns \<open>NULL\<close> and
  the line is skipped as malformed.
\<close>

definition parse_query :: "string \<Rightarrow> (string \<times> string) option" where
  "parse_query readbuffer =
     (case strstr readbuffer ''] '' of
        None \<Rightarrow> None
      | Some domainstart \<Rightarrow>
          (case strstr (drop 2 domainstart) '' from'' of
             None \<Rightarrow> None
           | Some domainend \<Rightarrow>
               (case strstr (drop 6 domainend) newline of
                  None \<Rightarrow> None
                | Some clientend \<Rightarrow>
                    Some (take (length (drop 2 domainstart) - length domainend)
                            (drop 2 domainstart),
                          take (length (drop 6 domainend) - length clientend)
                            (drop 6 domainend)))))"

text \<open>The type of the query, with its counter.\<close>

definition query_type :: "string \<Rightarrow> nat" where
  "query_type readbuffer =
     (if found readbuffer ''query[A]'' then 1
      else if found readbuffer ''query[AAAA]'' then 2 else 0)"

definition count_type :: "nat \<Rightarrow> ftl_data \<Rightarrow> ftl_data" where
  "count_type type d =
     (if type = 1 then d\<lparr>counters := (counters d)\<lparr>c_IPv4 := c_IPv4 (counters d) + 1\<rparr>\<rparr>
      else if type = 2 then d\<lparr>counters := (counters d)\<lparr>c_IPv6 := c_IPv6 (counters d) + 1\<rparr>\<rparr>
      else d)"

text \<open>
  "Save everything": the entry \<open>queries[counters.queries]\<close>, the increment of
  \<open>counters.queries\<close> and of \<open>overTime[timeidx].total\<close>.
\<close>

definition save_query :: "log_query \<Rightarrow> nat \<Rightarrow> ftl_data \<Rightarrow> ftl_data" where
  "save_query q timeidx d =
     d\<lparr>log_queries := (log_queries d)(c_queries (counters d) := q),
       counters := (counters d)\<lparr>c_queries := c_queries (counters d) + 1\<rparr>,
       log_overTime := (log_overTime d)
         (timeidx := (log_overTime d timeidx)
            \<lparr>lo_total := lo_total (log_overTime d timeidx) + 1\<rparr>)\<rparr>"

text \<open>
  The branch for a line with \<open>]: query[A\<close>. The three \<open>continue\<close> for a
  malformed line leave after \<open>counters.overtime\<close> has been updated.
\<close>

definition process_query ::
  "parser_extern \<Rightarrow> string \<Rightarrow> string list \<Rightarrow> ftl_data \<Rightarrow> ftl_data" where
  "process_query ext readbuffer following d0 =
     (let timestamp = take 15 readbuffer;
          timeidx = (tm_min ext timestamp - tm_min ext timestamp mod 10) div 10
                      + 6 * tm_hour ext timestamp;
          d = d0\<lparr>counters := (counters d0)
                  \<lparr>c_overtime := (if timeidx > c_overtime (counters d0) then timeidx
                                  else c_overtime (counters d0))\<rparr>\<rparr>
      in case parse_query readbuffer of
           None \<Rightarrow> d
         | Some (domain, client) \<Rightarrow>
             (let type = query_type readbuffer;
                  d1 = count_type type d;
                  status = find_status domain following;
                  dd = add_domain domain d1;
                  dc = add_client ext client (fst dd);
                  q = \<lparr>lq_timestamp = mktime ext timestamp, lq_type = type, lq_status = status,
                       lq_domainID = snd dd, lq_clientID = snd dc\<rparr>
              in count_status status timeidx (snd dd) (save_query q timeidx (fst dc))))"

text \<open>The branch for a line with \<open>: forwarded\<close>.\<close>

definition process_forwarded :: "parser_extern \<Rightarrow> string \<Rightarrow> ftl_data \<Rightarrow> ftl_data" where
  "process_forwarded ext readbuffer d =
     (case strstr readbuffer '' to '' of
        None \<Rightarrow> d
      | Some forwardstart \<Rightarrow>
          (case strstr (drop 4 forwardstart) newline of
             None \<Rightarrow> d
           | Some forwardend \<Rightarrow>
               (let forward = take (length (drop 4 forwardstart) - length forwardend)
                                (drop 4 forwardstart)
                in case find_forward d forward of
                     Some i \<Rightarrow>
                       d\<lparr>log_forwarded := (log_forwarded d)
                           (i := (log_forwarded d i)\<lparr>lf_count := lf_count (log_forwarded d i) + 1\<rparr>)\<rparr>
                   | None \<Rightarrow>
                       (let forwardID = c_forwarded (counters d)
                        in d\<lparr>log_forwarded := (log_forwarded d)
                               (forwardID := \<lparr>lf_ip = forward,
                                              lf_name = (case gethostbyaddr ext forward of
                                                           None \<Rightarrow> [] | Some h \<Rightarrow> h),
                                              lf_count = 1\<rparr>),
                             counters := (counters d)\<lparr>c_forwarded := forwardID + 1\<rparr>\<rparr>))))"

text \<open>
  One pass of the loop \<open>while(fgets(readbuffer, ...) != NULL)\<close>, for the line
  read and the lines that follow it. \<open>read_gravity_files\<close>, which is not part
  of parser.c, recounts the entries of the block lists and touches none of the
  data modelled here. The position \<open>dnsmasqlogpos\<close> and the lines written to
  the log of the program are left out.
\<close>

definition process_line ::
  "parser_extern \<Rightarrow> string \<Rightarrow> string list \<Rightarrow> ftl_data \<Rightarrow> ftl_data" where
  "process_line ext readbuffer following d =
     (if found readbuffer '']: query[A'' then process_query ext readbuffer following d
      else if found readbuffer '': forwarded'' then process_forwarded ext readbuffer d
      else if found readbuffer ''IPv6'' \<and> found readbuffer ''DBus''
              \<and> found readbuffer ''i18n'' \<and> found readbuffer ''DHCP'' \<and> \<not> initialscan ext
           then d
      else if found readbuffer ''query[PTR]''
           then d\<lparr>counters := (counters d)\<lparr>c_PTR := c_PTR (counters d) + 1\<rparr>\<rparr>
      else if found readbuffer ''query[SRV]''
           then d\<lparr>counters := (counters d)\<lparr>c_SRV := c_SRV (counters d) + 1\<rparr>\<rparr>
      else d)"

fun process_pihole_log :: "parser_extern \<Rightarrow> string list \<Rightarrow> ftl_data \<Rightarrow> ftl_data" where
  "process_pihole_log ext [] d = d"
| "process_pihole_log ext (readbuffer # following) d =
     process_pihole_log ext following (process_line ext readbuffer following d)"

text \<open>The data after \<open>memset\<close> with zero, as at the start and after a flush of the log.\<close>

definition zero_counters :: countersStruct where
  "zero_counters =
     \<lparr>c_queries = 0, c_unknown = 0, c_blocked = 0, c_wildcardblocked = 0, c_cached = 0,
      c_IPv4 = 0, c_IPv6 = 0, c_PTR = 0, c_SRV = 0, c_domains = 0, c_clients = 0,
      c_forwarded = 0, c_overtime = 0\<rparr>"

definition zero_data :: ftl_data where
  "zero_data =
     \<lparr>counters = zero_counters,
      log_queries = (\<lambda>_. \<lparr>lq_timestamp = 0, lq_type = 0, lq_status = 0, lq_domainID = 0,
                            lq_clientID = 0\<rparr>),
      log_domains = (\<lambda>_. \<lparr>ld_domain = [], ld_count = 0, ld_blockedcount = 0\<rparr>),
      log_clients = (\<lambda>_. \<lparr>lc_ip = [], lc_name = [], lc_count = 0\<rparr>),
      log_forwarded = (\<lambda>_. \<lparr>lf_ip = [], lf_name = [], lf_count = 0\<rparr>),
      log_overTime = (\<lambda>_. \<lparr>lo_total = 0, lo_blocked = 0\<rparr>)\<rparr>"

text \<open>
  The counters per status of this parser, and the number of admitted queries
  that have the status 2 (forwarded).
\<close>

definition status_counters_sum :: "countersStruct \<Rightarrow> nat" where
  "status_counters_sum c = c_unknown c + c_blocked c + c_cached c + c_wildcardblocked c"

definition forwarded_queries :: "ftl_data \<Rightarrow> nat" where
  "forwarded_queries d =
     length (filter (\<lambda>i. lq_status (log_queries d i) = 2) [0 ..< c_queries (counters d)])"

text \<open>
  A log of two queries that are both forwarded to the same upstream server, and
  a C library that reads midnight from every time stamp and knows no host name.
\<close>

definition example_log :: "string list" where
  "example_log =
     [''Jan  1 00:00:01 dnsmasq[1]: query[A] a.example from 10.0.0.1'' @ newline,
      ''Jan  1 00:00:01 dnsmasq[1]: forwarded a.example to 8.8.8.8'' @ newline,
      ''Jan  1 00:00:02 dnsmasq[1]: query[A] b.example from 10.0.0.1'' @ newline,
      ''Jan  1 00:00:02 dnsmasq[1]: forwarded b.example to 8.8.8.8'' @ newline]"

definition example_extern :: parser_extern where
  "example_extern =
     \<lparr>tm_hour = (\<lambda>_. 0), tm_min = (\<lambda>_. 0), mktime = (\<lambda>_. 0),
      gethostbyaddr = (\<lambda>_. None), initialscan = False\<rparr>"

text \<open>
  The relation between the counters that \<open>process_pihole_log\<close> keeps, and a
  change of the data that leaves the counters per status, the number of queries
  and the array of queries as they are.
\<close>

definition status_invariant :: "ftl_data \<Rightarrow> bool" where
  "status_invariant d \<longleftrightarrow>
     status_counters_sum (counters d) + forwarded_queries d = c_queries (counters d)"

definition same_status_data :: "ftl_data \<Rightarrow> ftl_data \<Rightarrow> bool" where
  "same_status_data d d' \<longleftrightarrow>
     c_queries (counters d') = c_queries (counters d)
     \<and> c_unknown (counters d') = c_unknown (counters d)
     \<and> c_blocked (counters d') = c_blocked (counters d)
     \<and> c_cached (counters d') = c_cached (counters d)
     \<and> c_wildcardblocked (counters d') = c_wildcardblocked (counters d)
     \<and> log_queries d' = log_queries d"

section \<open>Properties of the rate limiter\<close>

lemma fst_reset_rate_limiting_step:
  "fst (reset_rate_limiting_step conf i acc) =
     (case fst acc i of None \<Rightarrow> fst acc
      | Some c \<Rightarrow> (fst acc)(i \<mapsto> fst (reset_client conf c)))"
  by (simp add: reset_rate_limiting_step_def Let_def split: option.splits)

lemma fold_reset_other:
  "k \<notin> set ids \<Longrightarrow>
     fst (fold (reset_rate_limiting_step conf) ids acc) k = fst acc k"
  by (induction ids arbitrary: acc)
     (auto simp: fst_reset_rate_limiting_step split: option.splits)

lemma fold_reset_member:
  "distinct ids \<Longrightarrow> k \<in> set ids \<Longrightarrow> fst acc k = Some c \<Longrightarrow>
     fst (fold (reset_rate_limiting_step conf) ids acc) k = Some (fst (reset_client conf c))"
proof (induction ids arbitrary: acc)
  case Nil
  then show ?case by simp
next
  case (Cons i ids)
  show ?case
  proof (cases "i = k")
    case True
    with Cons.prems have "k \<notin> set ids" by simp
    then have "fst (fold (reset_rate_limiting_step conf) ids
                  (reset_rate_limiting_step conf i acc)) k
                = fst (reset_rate_limiting_step conf i acc) k"
      by (rule fold_reset_other)
    with True Cons.prems show ?thesis
      by (simp add: fst_reset_rate_limiting_step)
  next
    case False
    with Cons.prems have "k \<in> set ids" "distinct ids" by simp_all
    moreover from False Cons.prems
    have "fst (reset_rate_limiting_step conf i acc) k = Some c"
      by (simp add: fst_reset_rate_limiting_step split: option.splits)
    ultimately show ?thesis
      using Cons.IH by simp
  qed
qed

lemma reset_rate_limiting_client:
  assumes "int k < n" and "cl k = Some c"
  shows "fst (reset_rate_limiting conf n cl) k = Some (fst (reset_client conf c))"
proof -
  from assms(1) have "k \<in> set [0 ..< nat n]" by simp
  then show ?thesis
    unfolding reset_rate_limiting_def
    using assms(2) by (intro fold_reset_member) simp_all
qed

lemma reset_client_fields:
  "rate_limit (fst (reset_client conf c)) = 0"
  "flags_rate_limited (fst (reset_client conf c)) =
     (flags_rate_limited c \<and> rateLimit_count conf < rate_limit c)"
  by (simp_all add: reset_client_def)

lemma time_t_id: "- (2 ^ 63) \<le> x \<Longrightarrow> x < 2 ^ 63 \<Longrightarrow> time_t x = x"
  by (simp add: time_t_def)

text \<open>
  The overflow of the product in \<open>time_t\<close>: with \<open>count = 1\<close> and
  \<open>interval = c = 2 ^ 32 - 1\<close> the product is \<open>(2 ^ 32 - 1)\<^sup>2\<close>, which does not
  fit 63 bits.
\<close>

lemma get_rate_limit_turnaround_overflow:
  "get_rate_limit_turnaround \<lparr>rateLimit_count = 1, rateLimit_interval = 4294967295\<rparr>
     1000 1000 4294967295 = Some (- 8589934591)"
  by (simp add: get_rate_limit_turnaround_def time_t_def Let_def)

text \<open>
  Claim C4, as amended. Take a configured count that is not zero, \<open>unsigned int\<close>
  values of count, interval and the counter \<open>c\<close> (below \<open>2 ^ 32\<close>), a product
  \<open>interval * floor(c / count)\<close> that fits \<open>time_t\<close> (below \<open>2 ^ 63\<close>), and times
  \<open>0 \<le> lastRateLimitCleaner \<le> now < 2 ^ 63\<close>. Then
  \<open>get_rate_limit_turnaround c\<close> returns
  \<open>interval * floor(c / count) - (now - lastRateLimitCleaner)\<close>: the quotient is
  rounded down, not up. For a client that has just been rate-limited (its counter
  is \<open>count + 1 = 6\<close>) in a window of 60 seconds that started less than 60 seconds
  ago, with \<open>count = 5\<close>, the result lies in \<open>(0, 60]\<close>.
\<close>

theorem get_rate_limit_turnaround_floor:
  assumes "0 < rateLimit_count conf"
    and "rateLimit_count conf < 2 ^ 32"
    and "rateLimit_interval conf < 2 ^ 32"
    and "c < 2 ^ 32"
    and "int (rateLimit_interval conf) * \<lfloor>real c / real (rateLimit_count conf)\<rfloor> < 2 ^ 63"
    and "0 \<le> lastC" and "lastC \<le> now" and "now < 2 ^ 63"
  shows "get_rate_limit_turnaround conf now lastC c =
       Some (int (rateLimit_interval conf) * \<lfloor>real c / real (rateLimit_count conf)\<rfloor> - (now - lastC))
     \<and> (rateLimit_count conf = 5 \<and> rateLimit_interval conf = 60 \<and> c = 6 \<and>
          now - lastC < 60 \<longrightarrow>
          (\<exists>r. get_rate_limit_turnaround conf now lastC c = Some r \<and> 0 < r \<and> r \<le> 60))"
proof -
  define p where "p = int (rateLimit_interval conf) * int (c div rateLimit_count conf)"
  define d where "d = now - lastC"
  have fl: "\<lfloor>real c / real (rateLimit_count conf)\<rfloor> = int (c div rateLimit_count conf)"
    by (rule floor_divide_of_nat_eq)
  have p0: "0 \<le> p" by (simp add: p_def)
  from assms(5) fl have p1: "p < 2 ^ 63" by (simp add: p_def)
  from assms(6-8) have d0: "0 \<le> d" and d1: "d < 2 ^ 63" by (simp_all add: d_def)
  from p0 p1 have tp: "time_t p = p" by (intro time_t_id) linarith+
  from d0 d1 have td: "time_t d = d" by (intro time_t_id) linarith+
  from p0 p1 d0 d1 have "time_t (p - d) = p - d" by (intro time_t_id) linarith+
  with tp td assms(1) have r: "get_rate_limit_turnaround conf now lastC c = Some (p - d)"
    by (simp add: get_rate_limit_turnaround_def Let_def p_def d_def)
  from r fl have 1: "get_rate_limit_turnaround conf now lastC c =
       Some (int (rateLimit_interval conf) * \<lfloor>real c / real (rateLimit_count conf)\<rfloor> - (now - lastC))"
    by (simp add: p_def d_def)
  have 2: "\<exists>r. get_rate_limit_turnaround conf now lastC c = Some r \<and> 0 < r \<and> r \<le> 60"
    if "rateLimit_count conf = 5 \<and> rateLimit_interval conf = 60 \<and> c = 6 \<and> now - lastC < 60"
  proof -
    from that have "p = 60" by (simp add: p_def)
    with that d0 have "0 < p - d \<and> p - d \<le> 60" by (simp add: d_def)
    with r show ?thesis by simp
  qed
  from 1 2 show ?thesis by blast
qed

theorem get_rate_limit_turnaround_floor_witness:
  "get_rate_limit_turnaround \<lparr>rateLimit_count = 5, rateLimit_interval = 60\<rparr> 1030 1000 6 = Some 30
   \<and> (\<exists>r. get_rate_limit_turnaround \<lparr>rateLimit_count = 5, rateLimit_interval = 60\<rparr> 1030 1000 6 = Some r
          \<and> 0 < r \<and> r \<le> 60)"
proof -
  have "\<lfloor>(6::real) / 5\<rfloor> = 1" by (simp add: floor_eq_iff)
  with get_rate_limit_turnaround_floor
    [of "\<lparr>rateLimit_count = 5, rateLimit_interval = 60\<rparr>" 6 1000 1030]
  show ?thesis by simp
qed

text \<open>
  Claim C4 as stated fails: with \<open>count = 5\<close> and \<open>interval = 60\<close>, a counter of 6
  right at the start of the window gives 60 seconds, where the formula with the
  quotient rounded up gives 120.
\<close>

theorem get_rate_limit_turnaround_ceil_counterexample:
  "get_rate_limit_turnaround \<lparr>rateLimit_count = 5, rateLimit_interval = 60\<rparr> 1000 1000 6 = Some 60
   \<and> spec_rate_limit_turnaround \<lparr>rateLimit_count = 5, rateLimit_interval = 60\<rparr> 1000 1000 6 = 120"
proof -
  have "\<lceil>(6::real) / 5\<rceil> = 2" by (simp add: ceiling_eq_iff)
  then show ?thesis
    by (simp add: get_rate_limit_turnaround_def spec_rate_limit_turnaround_def time_t_def Let_def)
qed

text \<open>
  Claim C5. When rate limiting has an interval (\<open>interval > 0\<close>) and a pass of the
  housekeeping loop runs at least \<open>interval\<close> seconds after the previous reset
  (the elapsed time fitting the \<open>unsigned int\<close> the code casts it to), the pass
  records the reset time and treats every client of the table: its counter
  \<open>rate_limit\<close> becomes 0, and its flag \<open>rate_limited\<close> is afterwards set exactly
  when it was set before and the counter accrued in the window exceeds the
  configured count. So a set flag is cleared if and only if the counter does not
  exceed the count, and persists into the next window otherwise.
\<close>

theorem GC_thread_rate_limit_reset:
  assumes "0 < rateLimit_interval conf"
    and "int (rateLimit_interval conf) \<le> now - lastRateLimitCleaner st"
    and "now - lastRateLimitCleaner st < 2 ^ 32"
    and "int k < counters_clients st"
    and "clients st k = Some c"
  shows "\<exists>c'. clients (fst (GC_thread_rate_limit conf now st)) k = Some c'
           \<and> rate_limit c' = 0
           \<and> (flags_rate_limited c' \<longleftrightarrow>
                flags_rate_limited c \<and> rateLimit_count conf < rate_limit c)
           \<and> (flags_rate_limited c \<longrightarrow>
                (\<not> flags_rate_limited c' \<longleftrightarrow> rate_limit c \<le> rateLimit_count conf))
           \<and> lastRateLimitCleaner (fst (GC_thread_rate_limit conf now st)) = now"
proof -
  let ?d = "now - lastRateLimitCleaner st"
  from assms(2) have "0 \<le> ?d" by linarith
  with assms(3) have "?d mod 2 ^ 32 = ?d" by simp
  with assms(2) have "rateLimit_interval conf \<le> nat (?d mod 2 ^ 32)" by simp
  with assms(1) have run: "GC_thread_rate_limit conf now st =
      (st\<lparr>lastRateLimitCleaner := now,
          clients := fst (reset_rate_limiting conf (counters_clients st) (clients st))\<rparr>,
       snd (reset_rate_limiting conf (counters_clients st) (clients st)))"
    by (simp add: GC_thread_rate_limit_def Let_def)
  have "fst (reset_rate_limiting conf (counters_clients st) (clients st)) k
          = Some (fst (reset_client conf c))"
    using assms(4,5) by (rule reset_rate_limiting_client)
  with run show ?thesis
    by (auto simp: reset_client_fields)
qed

theorem GC_thread_rate_limit_reset_witness:
  "\<exists>c'. clients (fst (GC_thread_rate_limit \<lparr>rateLimit_count = 5, rateLimit_interval = 60\<rparr> 1060
              \<lparr>lastRateLimitCleaner = 1000, counters_clients = 1,
               clients = [0 \<mapsto> \<lparr>ippos = 3, client_count = 7, client_blockedcount = 0,
                                client_overTime = (\<lambda>_. 0), rate_limit = 7,
                                flags_rate_limited = True\<rparr>]\<rparr>)) 0 = Some c'
         \<and> rate_limit c' = 0 \<and> flags_rate_limited c'"
  using GC_thread_rate_limit_reset
    [of "\<lparr>rateLimit_count = 5, rateLimit_interval = 60\<rparr>" 1060
        "\<lparr>lastRateLimitCleaner = 1000, counters_clients = 1,
          clients = [0 \<mapsto> \<lparr>ippos = 3, client_count = 7, client_blockedcount = 0,
                           client_overTime = (\<lambda>_. 0), rate_limit = 7,
                           flags_rate_limited = True\<rparr>]\<rparr>"
        0
        "\<lparr>ippos = 3, client_count = 7, client_blockedcount = 0,
          client_overTime = (\<lambda>_. 0), rate_limit = 7, flags_rate_limited = True\<rparr>"]
  by simp blast

section \<open>Properties of \<open>check_client_auth\<close>\<close>


lemma find_session_first:
  "j < length xs \<Longrightarrow> session_matches now addr s (xs ! j) \<Longrightarrow>
   (\<forall>m < j. \<not> session_matches now addr s (xs ! m)) \<Longrightarrow>
     find_session now addr s nc tok i xs =
       (if nc \<and> csrf (xs ! j) \<noteq> tok then Inl () else Inr (Some (i + j)))"
proof (induction xs arbitrary: i j)
  case Nil
  then show ?case by simp
next
  case (Cons a as)
  show ?case
  proof (cases j)
    case 0
    with Cons.prems show ?thesis by simp
  next
    case (Suc j')
    with Cons.prems have na: "\<not> session_matches now addr s a" by auto
    from Suc Cons.prems have "j' < length as" "session_matches now addr s (as ! j')"
      "\<forall>m < j'. \<not> session_matches now addr s (as ! m)" by auto
    from Cons.IH [OF this, of "Suc i"] na Suc show ?thesis by simp
  qed
qed





text \<open>
  Claim C2, as amended. Take a request for the API (\<open>is_api\<close>) that gets as far
  as the session lookup and whose session id comes from the cookie. Without a
  header X-CSRF-TOKEN the result is unauthorized. With a header, let \<open>i\<close> be the
  session that the lookup finds for the request (the first slot in use, not
  expired, with the remote address and the session id of the request): when the
  first \<open>SID_SIZE - 1\<close> characters of the header, which are what the function
  reads into its buffer \<open>csrf[SID_SIZE]\<close>, differ from the stored \<open>csrf\<close> the
  result is unauthorized, and when they are equal the authentication succeeds
  with slot \<open>i\<close>.
\<close>

theorem check_client_auth_cookie_csrf:
  assumes "localAPIauth conf \<or> \<not> is_local_api_user (request_remote_addr api)"
    and "pwhash conf \<noteq> []"
    and "request_sid api = Some (s, True)"
  shows "(header_X_CSRF_TOKEN api = None \<longrightarrow>
            out_result (check_client_auth conf now api True auth_data) = API_AUTH_UNAUTHORIZED)
       \<and> (header_X_CSRF_TOKEN api = Some h \<and> i < length auth_data
            \<and> session_matches now (request_remote_addr api) s (auth_data ! i)
            \<and> (\<forall>j < i. \<not> session_matches now (request_remote_addr api) s (auth_data ! j)) \<longrightarrow>
            (csrf (auth_data ! i) \<noteq> take (SID_SIZE - 1) h \<longrightarrow>
               out_result (check_client_auth conf now api True auth_data) = API_AUTH_UNAUTHORIZED)
          \<and> (csrf (auth_data ! i) = take (SID_SIZE - 1) h \<and> snprintf_ok api \<longrightarrow>
               out_result (check_client_auth conf now api True auth_data) = User_id i))"
proof (intro conjI impI)
  assume "header_X_CSRF_TOKEN api = None"
  with assms show "out_result (check_client_auth conf now api True auth_data) = API_AUTH_UNAUTHORIZED"
    by (auto simp: check_client_auth_def auth_fail_def)
next
  assume a: "header_X_CSRF_TOKEN api = Some h \<and> i < length auth_data
            \<and> session_matches now (request_remote_addr api) s (auth_data ! i)
            \<and> (\<forall>j < i. \<not> session_matches now (request_remote_addr api) s (auth_data ! j))"
  then have fs: "find_session now (request_remote_addr api) s True (take (SID_SIZE - 1) h) 0 auth_data
      = (if csrf (auth_data ! i) \<noteq> take (SID_SIZE - 1) h then Inl () else Inr (Some (0 + i)))"
    using find_session_first [of i auth_data now "request_remote_addr api" s True
        "take (SID_SIZE - 1) h" 0] by simp
  {
    assume "csrf (auth_data ! i) \<noteq> take (SID_SIZE - 1) h"
    with assms a fs
    show "out_result (check_client_auth conf now api True auth_data) = API_AUTH_UNAUTHORIZED"
      by (auto simp: check_client_auth_def auth_fail_def)
  next
    assume "csrf (auth_data ! i) = take (SID_SIZE - 1) h \<and> snprintf_ok api"
    with assms a fs
    show "out_result (check_client_auth conf now api True auth_data) = User_id i"
      by (auto simp: check_client_auth_def auth_success_def Let_def)
  }
qed

theorem check_client_auth_cookie_csrf_witness:
  "out_result (check_client_auth
      \<lparr>localAPIauth = True, pwhash = ''hash'', totp_secret = [], session_timeout_v = 300,
        session_timeout_d = 300\<rparr> 1000
      \<lparr>request_remote_addr = ''10.0.0.7'', request_is_ssl = False, conn_method = HTTP_GET,
        conn_item = None, payload_avail = False, payload_form_sid = None, payload_json = None,
        payload_json_error = None, header_sid = None, header_X_FTL_SID = None,
        header_X_CSRF_TOKEN = Some ''tok'', header_Authorization = None, header_user_agent = None,
        cookie_sid = Some ''abc'', snprintf_ok = True\<rparr> True
      [\<lparr>used = True, app = False, tls_login = False, tls_mixed = False, login_at = 900,
        valid_until = 1200, sid = ''abc'', csrf = ''tok'', remote_addr = ''10.0.0.7'',
        user_agent = []\<rparr>]) = User_id 0
   \<and> out_result (check_client_auth
      \<lparr>localAPIauth = True, pwhash = ''hash'', totp_secret = [], session_timeout_v = 300,
        session_timeout_d = 300\<rparr> 1000
      \<lparr>request_remote_addr = ''10.0.0.7'', request_is_ssl = False, conn_method = HTTP_GET,
        conn_item = None, payload_avail = False, payload_form_sid = None, payload_json = None,
        payload_json_error = None, header_sid = None, header_X_FTL_SID = None,
        header_X_CSRF_TOKEN = Some ''bad'', header_Authorization = None, header_user_agent = None,
        cookie_sid = Some ''abc'', snprintf_ok = True\<rparr> True
      [\<lparr>used = True, app = False, tls_login = False, tls_mixed = False, login_at = 900,
        valid_until = 1200, sid = ''abc'', csrf = ''tok'', remote_addr = ''10.0.0.7'',
        user_agent = []\<rparr>]) = API_AUTH_UNAUTHORIZED
   \<and> out_result (check_client_auth
      \<lparr>localAPIauth = True, pwhash = ''hash'', totp_secret = [], session_timeout_v = 300,
        session_timeout_d = 300\<rparr> 1000
      \<lparr>request_remote_addr = ''10.0.0.7'', request_is_ssl = False, conn_method = HTTP_GET,
        conn_item = None, payload_avail = False, payload_form_sid = None, payload_json = None,
        payload_json_error = None, header_sid = None, header_X_FTL_SID = None,
        header_X_CSRF_TOKEN = None, header_Authorization = None, header_user_agent = None,
        cookie_sid = Some ''abc'', snprintf_ok = True\<rparr> True
      [\<lparr>used = True, app = False, tls_login = False, tls_mixed = False, login_at = 900,
        valid_until = 1200, sid = ''abc'', csrf = ''tok'', remote_addr = ''10.0.0.7'',
        user_agent = []\<rparr>]) = API_AUTH_UNAUTHORIZED"
proof -
  let ?conf = "\<lparr>localAPIauth = True, pwhash = ''hash'', totp_secret = [], session_timeout_v = 300,
        session_timeout_d = 300\<rparr>"
  let ?api = "\<lambda>t. \<lparr>request_remote_addr = ''10.0.0.7'', request_is_ssl = False, conn_method = HTTP_GET,
        conn_item = None, payload_avail = False, payload_form_sid = None, payload_json = None,
        payload_json_error = None, header_sid = None, header_X_FTL_SID = None,
        header_X_CSRF_TOKEN = t, header_Authorization = None, header_user_agent = None,
        cookie_sid = Some ''abc'', snprintf_ok = True\<rparr>"
  let ?data = "[\<lparr>used = True, app = False, tls_login = False, tls_mixed = False, login_at = 900,
        valid_until = 1200, sid = ''abc'', csrf = ''tok'', remote_addr = ''10.0.0.7'',
        user_agent = []\<rparr>]"
  have rs: "\<And>t. request_sid (?api t) = Some (''abc'', True)"
    by (simp add: request_sid_def sid_from_payload_def sid_from_header_def)
  have c: "pwhash ?conf \<noteq> []" "localAPIauth ?conf \<or> \<not> is_local_api_user (request_remote_addr (?api t))" for t
    by simp_all
  have 1: "out_result (check_client_auth ?conf 1000 (?api (Some ''tok'')) True ?data) = User_id 0"
    using check_client_auth_cookie_csrf [OF c(2) c(1) rs, where t1 = "Some ''tok''" and h = "''tok''" and i = 0 and auth_data = ?data and now = 1000]
    by (simp add: session_matches_def SID_SIZE_def)
  have 2: "out_result (check_client_auth ?conf 1000 (?api (Some ''bad'')) True ?data) = API_AUTH_UNAUTHORIZED"
    using check_client_auth_cookie_csrf [OF c(2) c(1) rs, where t1 = "Some ''bad''" and h = "''bad''" and i = 0 and auth_data = ?data and now = 1000]
    by (simp add: session_matches_def SID_SIZE_def)
  have 3: "out_result (check_client_auth ?conf 1000 (?api None) True ?data) = API_AUTH_UNAUTHORIZED"
    using check_client_auth_cookie_csrf [OF c(2) c(1) rs, where t1 = None and auth_data = ?data and now = 1000]
    by simp
  from 1 2 3 show ?thesis by simp
qed

text \<open>
  Claim C2 as stated fails: with the session id in the cookie, a header
  X-CSRF-TOKEN that carries the 43 characters of the stored token followed by
  three more characters does not match the stored token, and the request is
  authenticated.
\<close>

theorem check_client_auth_truncated_csrf_counterexample:
  "out_result (check_client_auth example_auth_config 1000
      (example_conn\<lparr>cookie_sid := Some example_sid,
                     header_X_CSRF_TOKEN := Some (example_csrf @ ''XYZ'')\<rparr>)
      True [example_session])
     = User_id 0
   \<and> request_sid (example_conn\<lparr>cookie_sid := Some example_sid,
                     header_X_CSRF_TOKEN := Some (example_csrf @ ''XYZ'')\<rparr>)
       = Some (example_sid, True)
   \<and> csrf ([example_session] ! 0) = example_csrf
   \<and> example_csrf @ ''XYZ'' \<noteq> example_csrf"
  by (simp add: check_client_auth_def request_sid_def sid_from_payload_def
        sid_from_header_def SID_SIZE_def session_matches_def auth_success_def Let_def
        example_auth_config_def example_conn_def example_session_def example_sid_def
        example_csrf_def)

section \<open>Properties of \<open>api_queries\<close>\<close>

lemma row_step_records: "records (row_step cur start len row st) = records st + 1"
  by (simp add: row_step_def Let_def)

lemma row_step_firstID:
  "firstID (row_step cur start len row st) = (if firstID st = - 1 then fst row else firstID st)"
  by (simp add: row_step_def Let_def)

lemma fold_row_step_records:
  "records (fold (row_step cur start len) rows st) = records st + length rows"
  by (induction rows arbitrary: st) (simp_all add: row_step_records)

lemma fold_row_step_firstID_set:
  "firstID st \<noteq> - 1 \<Longrightarrow> firstID (fold (row_step cur start len) rows st) = firstID st"
  by (induction rows arbitrary: st) (simp_all add: row_step_firstID)

lemma fold_row_step_firstID:
  "firstID st = - 1 \<Longrightarrow>
     firstID (fold (row_step cur start len) rows st) =
       (case filter (\<lambda>r. fst r \<noteq> - 1) rows of [] \<Rightarrow> - 1 | r # _ \<Rightarrow> fst r)"
proof (induction rows arbitrary: st)
  case Nil
  then show ?case by simp
next
  case (Cons r rs)
  show ?case
  proof (cases "fst r = - 1")
    case True
    with Cons.prems have "firstID (row_step cur start len r st) = - 1"
      by (simp add: row_step_firstID)
    from Cons.IH [OF this] True show ?thesis by simp
  next
    case False
    with Cons.prems have "firstID (row_step cur start len r st) = fst r"
      by (simp add: row_step_firstID)
    with False show ?thesis
      by (simp add: fold_row_step_firstID_set)
  qed
qed

lemma fold_row_step_items_unlimited:
  "len \<le> 0 \<Longrightarrow>
     items (fold (row_step cur start len) rows st) =
       items st @ filter (\<lambda>r. ulong (fst r) \<le> cur) (drop (start - records st) rows)"
proof (induction rows arbitrary: st)
  case Nil
  then show ?case by simp
next
  case (Cons r rs)
  let ?st1 = "row_step cur start len r st"
  have rec: "records ?st1 = records st + 1" by (rule row_step_records)
  show ?case
  proof (cases "records st < start")
    case True
    then have "items ?st1 = items st"
      by (simp add: row_step_def Let_def)
    moreover from True have "drop (start - records st) (r # rs) = drop (start - records ?st1) rs"
      by (simp add: rec drop_Cons')
    ultimately show ?thesis
      using Cons.IH [OF Cons.prems, of ?st1] by simp
  next
    case False
    then have d: "start - records st = 0" "start - records ?st1 = 0"
      by (simp_all add: rec)
    from False Cons.prems
    have "items ?st1 = items st @ filter (\<lambda>r. ulong (fst r) \<le> cur) [r]"
      by (simp add: row_step_def Let_def)
    with d show ?thesis
      using Cons.IH [OF Cons.prems, of ?st1] by simp
  qed
qed

lemma fold_row_step_items_limited:
  "0 < len \<Longrightarrow>
     items (fold (row_step cur start len) rows st) =
       items st @ take (nat len - added st)
                    (filter (\<lambda>r. ulong (fst r) \<le> cur) (drop (start - records st) rows))"
proof (induction rows arbitrary: st)
  case Nil
  then show ?case by simp
next
  case (Cons r rs)
  let ?st1 = "row_step cur start len r st"
  have rec: "records ?st1 = records st + 1" by (rule row_step_records)
  show ?case
  proof (cases "records st < start")
    case True
    then have "items ?st1 = items st" "added ?st1 = added st"
      by (simp_all add: row_step_def Let_def)
    moreover from True have "drop (start - records st) (r # rs) = drop (start - records ?st1) rs"
      by (simp add: rec drop_Cons')
    ultimately show ?thesis
      using Cons.IH [OF Cons.prems, of ?st1] by simp
  next
    case False
    then have d: "start - records st = 0" "start - records ?st1 = 0"
      by (simp_all add: rec)
    show ?thesis
    proof (cases "ulong (fst r) \<le> cur \<and> added st < nat len")
      case True
      with False Cons.prems have "items ?st1 = items st @ [r]" "added ?st1 = added st + 1"
        by (simp_all add: row_step_def Let_def)
      moreover from True have "nat len - added st = Suc (nat len - (added st + 1))"
        by linarith
      ultimately show ?thesis
        using Cons.IH [OF Cons.prems, of ?st1] d True by simp
    next
      case False2: False
      with False Cons.prems have s: "items ?st1 = items st" "added ?st1 = added st"
        by (auto simp: row_step_def Let_def)
      from False2 show ?thesis
        using Cons.IH [OF Cons.prems, of ?st1] d s by (auto simp: take_Cons')
    qed
  qed
qed

lemma rows_loop_items:
  "items (rows_loop cur start len rows) =
     limit_rows len (filter (\<lambda>r. ulong (fst r) \<le> cur) (drop start rows))"
  by (simp add: rows_loop_def limit_rows_def fold_row_step_items_unlimited
        fold_row_step_items_limited)

lemma rows_loop_firstID:
  "firstID (rows_loop cur start len rows) =
     (case filter (\<lambda>r. fst r \<noteq> - 1) rows of [] \<Rightarrow> - 1 | r # _ \<Rightarrow> fst r)"
  by (simp add: rows_loop_def fold_row_step_firstID)

lemma rows_loop_records: "records (rows_loop cur start len rows) = length rows"
  by (simp add: rows_loop_def fold_row_step_records)



lemma first_error_Some: "first_error rs = Some e \<Longrightarrow> Some e \<in> set rs"
proof -
  assume "first_error rs = Some e"
  then have "e \<in> set (List.map_filter id rs)"
    by (auto simp: first_error_def split: list.splits)
  then show ?thesis
    by (auto simp: List.map_filter_def)
qed

lemma bind_text_error:
  "bind_text env var stage message = Some e \<Longrightarrow> \<exists>hint. e = Json_error 500 ''internal_error'' message hint"
  by (auto simp: bind_text_def split: option.splits)

lemma bind_enum_error:
  "bind_enum env var table stage invalid message = Some e \<Longrightarrow>
     \<exists>hint. e = Json_error 500 ''internal_error'' message hint
          \<or> e = Json_error 400 ''bad_request'' invalid hint"
  by (auto simp: bind_enum_def split: option.splits)

lemma bind_filters_error:
  assumes "bind_filters env vars = Some e"
  shows "\<exists>code key message hint. e = Json_error code key message hint
           \<and> message \<noteq> ''Requested cursor is invalid''"
proof -
  from assms obtain v where v: "vars = Some v"
    by (cases vars) (auto simp: bind_filters_def)
  from assms v have "Some e \<in> set
            [bind_text env (var_domain v) Bind_domain
               ''Internal server error, failed to bind domain to SQL query'',
             bind_text env (var_client v) Bind_client
               ''Internal server error, failed to bind client to SQL query'',
             bind_text env (var_upstream v) Bind_upstream
               ''Internal server error, failed to bind upstream to SQL query'',
             bind_enum env (var_type v) (type_strs env) Bind_type
               ''Requested type is invalid''
               ''Internal server error, failed to bind type to SQL query'',
             bind_enum env (var_status v) (status_strs env) Bind_status
               ''Requested status is invalid''
               ''Internal server error, failed to bind status to SQL query'',
             bind_enum env (var_reply v) (reply_strs env) Bind_reply
               ''Requested reply is invalid''
               ''Internal server error, failed to bind reply to SQL query'',
             bind_enum env (var_dnssec v) (dnssec_strs env) Bind_dnssec
               ''Requested dnssec is invalid''
               ''Internal server error, failed to bind dnssec to SQL query'']"
    by (intro first_error_Some) (simp add: bind_filters_def)
  then consider
      (t) stage message var where "bind_text env var stage message = Some e"
        "message \<noteq> ''Requested cursor is invalid''"
    | (e) var table stage invalid message where
        "bind_enum env var table stage invalid message = Some e"
        "message \<noteq> ''Requested cursor is invalid''" "invalid \<noteq> ''Requested cursor is invalid''"
    by (simp only: set_simps insert_iff empty_iff) (elim disjE; (drule sym)?; fastforce)
  then show ?thesis
  proof cases
    case t
    from bind_text_error [OF t(1)] t(2) show ?thesis by blast
  next
    case e
    from bind_enum_error [OF e(1)] e(2,3) show ?thesis by blast
  qed
qed

lemma run_statement_error:
  "run_statement env vars cur cs = Json_error code key message hint \<Longrightarrow>
     message \<noteq> ''Requested cursor is invalid''"
proof -
  assume a: "run_statement env vars cur cs = Json_error code key message hint"
  show ?thesis
  proof (cases "bind_filters env vars")
    case None
    with a show ?thesis
      by (auto simp: run_statement_def Let_def split: if_splits)
  next
    case (Some e)
    from bind_filters_error [OF Some] obtain c k m h where
      e: "e = Json_error c k m h" "m \<noteq> ''Requested cursor is invalid''" by blast
    with a Some show ?thesis
      by (auto simp: run_statement_def Let_def split: if_splits)
  qed
qed

lemma run_statement_object:
  assumes "run_statement env vars cur cs = Json_queries obj"
  shows "queries obj = items (rows_loop cur (var_or 0 var_start vars)
                                     (var_or 100 var_length vars) (db_rows env))
           \<and> cursor obj = (if cs then int cur
                           else firstID (rows_loop cur (var_or 0 var_start vars)
                                     (var_or 100 var_length vars) (db_rows env)))
           \<and> draw obj = var_or 0 var_draw vars"
proof (cases "bind_filters env vars")
  case None
  with assms show ?thesis
    by (auto simp: run_statement_def Let_def split: if_splits)
next
  case (Some e)
  from bind_filters_error [OF Some] obtain c k m h where "e = Json_error c k m h" by blast
  with assms Some show ?thesis
    by (auto simp: run_statement_def Let_def split: if_splits)
qed

lemma api_queries_object:
  fixes env :: "'a queries_env"
  assumes "api_queries env vars = Json_queries obj"
  shows "\<exists>cur cs. (request_cursor (largest_db_index env) vars :: 'a queries_response + nat \<times> bool)
                      = Inr (cur, cs)
           \<and> run_statement env vars cur cs = Json_queries obj"
proof (cases "request_cursor (largest_db_index env) vars :: 'a queries_response + nat \<times> bool")
  case (Inl err)
  with assms show ?thesis
    by (auto simp: api_queries_def request_cursor_def split: if_splits option.splits)
next
  case (Inr p)
  with assms show ?thesis
    by (cases p) (auto simp: api_queries_def split: if_splits)
qed

lemma run_statement_runs:
  assumes "statement_runs env vars"
  shows "run_statement env vars cur cs =
           Json_queries
             \<lparr>queries = limit_rows (var_or 100 var_length vars)
                          (filter (\<lambda>r. ulong (fst r) \<le> cur)
                             (drop (var_or 0 var_start vars) (db_rows env))),
              cursor = (if cs then int cur
                        else (case filter (\<lambda>r. fst r \<noteq> - 1) (db_rows env) of
                                [] \<Rightarrow> - 1 | r # _ \<Rightarrow> fst r)),
              recordsTotal = (if var_or False var_disk vars then disk_dbnum env else mem_dbnum env),
              recordsFiltered = length (db_rows env),
              draw = var_or 0 var_draw vars\<rparr>"
  using assms
  by (simp add: run_statement_def statement_runs_def Let_def rows_loop_items
        rows_loop_firstID rows_loop_records)

lemma api_queries_runs:
  fixes env :: "'a queries_env"
  assumes "\<not> privacylevel_maximum env" and "client_auth env \<noteq> API_AUTH_UNAUTHORIZED"
    and "(request_cursor (largest_db_index env) vars :: 'a queries_response + nat \<times> bool)
           = Inr (cur, cs)"
  shows "api_queries env vars = run_statement env vars cur cs"
  using assms by (simp add: api_queries_def)

lemmas example_simps =
  example_env_def example_vars_def api_queries_def request_cursor_def run_statement_def
  var_or_def bind_filters_def first_error_def bind_text_def bind_enum_def
  List.map_filter_simps rows_loop_def row_step_def ulong_def Let_def

text \<open>
  Claim C7. Take a request for the query log that gets as far as the handling of
  the cursor (the privacy level is below the maximum and the client is not
  unauthorized) and carries a cursor that parses as a number. When the cursor
  is at most \<open>largest_db_index\<close>, equality included, the request is never
  answered with the error for an invalid cursor, and when the calls into the
  SQL engine succeed it is answered with the rows at or below the cursor (after
  \<open>start\<close>, cut to \<open>length\<close>) and with the cursor of the request; a cursor equal
  to \<open>largest_db_index\<close> skips no row of a database whose ids do not exceed it,
  so the most recent rows are returned. When the cursor exceeds
  \<open>largest_db_index\<close> the answer is the error 400 and no rows.
\<close>

theorem api_queries_cursor_validation:
  fixes env :: "'a queries_env"
  assumes "\<not> privacylevel_maximum env"
    and "client_auth env \<noteq> API_AUTH_UNAUTHORIZED"
    and "var_cursor_ret v"
    and "var_cursor_msg v = None"
  shows "(var_cursor_unum v \<le> largest_db_index env \<longrightarrow>
            (\<forall>code key hint. api_queries env (Some v) \<noteq>
                Json_error code key ''Requested cursor is invalid'' hint)
          \<and> (statement_runs env (Some v) \<longrightarrow>
               api_queries env (Some v) =
                 Json_queries
                   \<lparr>queries = limit_rows (var_or 100 var_length (Some v))
                                (filter (\<lambda>r. ulong (fst r) \<le> var_cursor_unum v)
                                   (drop (var_or 0 var_start (Some v)) (db_rows env))),
                    cursor = int (var_cursor_unum v),
                    recordsTotal = (if var_or False var_disk (Some v)
                                    then disk_dbnum env else mem_dbnum env),
                    recordsFiltered = length (db_rows env),
                    draw = var_or 0 var_draw (Some v)\<rparr>)
          \<and> (statement_runs env (Some v) \<and> var_cursor_unum v = largest_db_index env
               \<and> (\<forall>r \<in> set (db_rows env). ulong (fst r) \<le> largest_db_index env) \<longrightarrow>
               (\<exists>obj. api_queries env (Some v) = Json_queries obj
                  \<and> queries obj = limit_rows (var_or 100 var_length (Some v))
                                    (drop (var_or 0 var_start (Some v)) (db_rows env)))))
       \<and> (largest_db_index env < var_cursor_unum v \<longrightarrow>
            api_queries env (Some v) =
              Json_error 400 ''bad_request'' ''Requested cursor is invalid''
                (Some ''Cursor larger than largest database index''))"
proof -
  have gt: "api_queries env (Some v) =
              Json_error 400 ''bad_request'' ''Requested cursor is invalid''
                (Some ''Cursor larger than largest database index'')"
    if "largest_db_index env < var_cursor_unum v"
    using that assms by (simp add: api_queries_def request_cursor_def)
  {
    assume le: "var_cursor_unum v \<le> largest_db_index env"
    with assms(3,4)
    have rc: "(request_cursor (largest_db_index env) (Some v) :: 'a queries_response + nat \<times> bool)
                = Inr (var_cursor_unum v, True)"
      by (simp add: request_cursor_def)
    have run: "api_queries env (Some v) = run_statement env (Some v) (var_cursor_unum v) True"
      using assms(1,2) rc by (rule api_queries_runs)
    have 1: "\<forall>code key hint. api_queries env (Some v) \<noteq>
                Json_error code key ''Requested cursor is invalid'' hint"
      using run run_statement_error [of env "Some v" "var_cursor_unum v" True] by auto
    have 2: "api_queries env (Some v) =
                 Json_queries
                   \<lparr>queries = limit_rows (var_or 100 var_length (Some v))
                                (filter (\<lambda>r. ulong (fst r) \<le> var_cursor_unum v)
                                   (drop (var_or 0 var_start (Some v)) (db_rows env))),
                    cursor = int (var_cursor_unum v),
                    recordsTotal = (if var_or False var_disk (Some v)
                                    then disk_dbnum env else mem_dbnum env),
                    recordsFiltered = length (db_rows env),
                    draw = var_or 0 var_draw (Some v)\<rparr>"
      if "statement_runs env (Some v)"
      using run run_statement_runs [OF that, of "var_cursor_unum v" True] by simp
    have 3: "\<exists>obj. api_queries env (Some v) = Json_queries obj
                  \<and> queries obj = limit_rows (var_or 100 var_length (Some v))
                                    (drop (var_or 0 var_start (Some v)) (db_rows env))"
      if a: "statement_runs env (Some v) \<and> var_cursor_unum v = largest_db_index env
               \<and> (\<forall>r \<in> set (db_rows env). ulong (fst r) \<le> largest_db_index env)"
    proof -
      from a have "\<forall>r \<in> set (drop (var_or 0 var_start (Some v)) (db_rows env)).
                 ulong (fst r) \<le> var_cursor_unum v"
        by (auto dest: in_set_dropD)
      then have "filter (\<lambda>r. ulong (fst r) \<le> var_cursor_unum v)
               (drop (var_or 0 var_start (Some v)) (db_rows env))
             = drop (var_or 0 var_start (Some v)) (db_rows env)"
        by (simp add: filter_id_conv)
      with 2 a show ?thesis by simp
    qed
    note 1 2 3
  }
  with gt show ?thesis by blast
qed

theorem api_queries_cursor_validation_witness:
  "api_queries example_env (Some (example_vars\<lparr>var_cursor_ret := True, var_cursor_unum := 10\<rparr>)) =
     Json_queries \<lparr>queries = [(10, ()), (9, ())], cursor = 10, recordsTotal = 2,
                   recordsFiltered = 2, draw = 0\<rparr>
   \<and> api_queries example_env (Some (example_vars\<lparr>var_cursor_ret := True, var_cursor_unum := 11\<rparr>)) =
       Json_error 400 ''bad_request'' ''Requested cursor is invalid''
         (Some ''Cursor larger than largest database index'')"
proof -
  have run: "statement_runs example_env
               (Some (example_vars\<lparr>var_cursor_ret := True, var_cursor_unum := n\<rparr>))" for n
    by (simp add: statement_runs_def example_env_def example_vars_def var_or_def
          bind_filters_def first_error_def bind_text_def bind_enum_def List.map_filter_simps)
  have 1: "api_queries example_env (Some (example_vars\<lparr>var_cursor_ret := True, var_cursor_unum := 10\<rparr>)) =
     Json_queries \<lparr>queries = [(10, ()), (9, ())], cursor = 10, recordsTotal = 2,
                   recordsFiltered = 2, draw = 0\<rparr>"
    using api_queries_cursor_validation
      [of example_env "example_vars\<lparr>var_cursor_ret := True, var_cursor_unum := 10\<rparr>"] run [of 10]
    by (simp add: example_env_def example_vars_def var_or_def limit_rows_def ulong_def)
  have 2: "api_queries example_env (Some (example_vars\<lparr>var_cursor_ret := True, var_cursor_unum := 11\<rparr>)) =
       Json_error 400 ''bad_request'' ''Requested cursor is invalid''
         (Some ''Cursor larger than largest database index'')"
    using api_queries_cursor_validation
      [of example_env "example_vars\<lparr>var_cursor_ret := True, var_cursor_unum := 11\<rparr>"]
    by (simp add: example_env_def example_vars_def)
  from 1 2 show ?thesis by simp
qed

text \<open>
  Claim C8, as amended. Whenever \<open>api_queries\<close> answers with the object of
  queries and \<open>length\<close> is not positive (\<open>- 1\<close>, and \<open>0\<close> as well), every row
  that passes the cursor and start filters is emitted: the rows after the first
  \<open>start\<close> ones whose id does not exceed the cursor. The parameter \<open>draw\<close> is
  echoed in the answer.
\<close>

theorem api_queries_length_unlimited:
  fixes env :: "'a queries_env"
  assumes "api_queries env vars = Json_queries obj"
    and "var_or 100 var_length vars \<le> 0"
  shows "\<exists>cur cursor_set.
           (request_cursor (largest_db_index env) vars :: 'a queries_response + nat \<times> bool)
              = Inr (cur, cursor_set)
           \<and> queries obj = filter (\<lambda>r. ulong (fst r) \<le> cur)
                             (drop (var_or 0 var_start vars) (db_rows env))
           \<and> draw obj = var_or 0 var_draw vars"
proof -
  from api_queries_object [OF assms(1)] obtain cur cs where
    rc: "(request_cursor (largest_db_index env) vars :: 'a queries_response + nat \<times> bool)
           = Inr (cur, cs)"
    and rs: "run_statement env vars cur cs = Json_queries obj" by blast
  from run_statement_object [OF rs] assms(2)
  have "queries obj = filter (\<lambda>r. ulong (fst r) \<le> cur)
                             (drop (var_or 0 var_start vars) (db_rows env))"
    "draw obj = var_or 0 var_draw vars"
    by (simp_all add: rows_loop_items limit_rows_def)
  with rc show ?thesis by blast
qed

theorem api_queries_length_unlimited_witness:
  "api_queries example_env (Some (example_vars\<lparr>var_length := Some (- 1), var_draw := Some 7\<rparr>)) =
     Json_queries \<lparr>queries = [(10, ()), (9, ())], cursor = 10, recordsTotal = 2,
                   recordsFiltered = 2, draw = 7\<rparr>
   \<and> (\<exists>cur cursor_set.
         (request_cursor 10 (Some (example_vars\<lparr>var_length := Some (- 1), var_draw := Some 7\<rparr>))
            :: unit queries_response + nat \<times> bool) = Inr (cur, cursor_set)
         \<and> [(10, ()), (9, ())] = filter (\<lambda>r. ulong (fst r) \<le> cur) (drop 0 [(10, ()), (9, ())]))"
proof -
  have r: "api_queries example_env (Some (example_vars\<lparr>var_length := Some (- 1), var_draw := Some 7\<rparr>)) =
     Json_queries \<lparr>queries = [(10, ()), (9, ())], cursor = 10, recordsTotal = 2,
                   recordsFiltered = 2, draw = 7\<rparr>"
    by (simp add: example_simps)
  have l: "var_or 100 var_length (Some (example_vars\<lparr>var_length := Some (- 1), var_draw := Some 7\<rparr>)) \<le> 0"
    by (simp add: var_or_def)
  from api_queries_length_unlimited [OF r l] r show ?thesis
    by (simp add: example_env_def example_vars_def var_or_def)
qed

text \<open>
  Claim C8 as stated fails for \<open>length = 0\<close>: the two rows of the example are
  both emitted (and \<open>draw\<close> is echoed).
\<close>

theorem api_queries_length_zero_counterexample:
  "api_queries example_env (Some (example_vars\<lparr>var_length := Some 0, var_draw := Some 7\<rparr>)) =
     Json_queries \<lparr>queries = [(10, ()), (9, ())], cursor = 10, recordsTotal = 2,
                   recordsFiltered = 2, draw = 7\<rparr>
   \<and> [(10::int, ()), (9, ())] \<noteq> []"
  by (simp add: example_simps)

text \<open>
  Claim C9, as amended. Whenever \<open>api_queries\<close> answers with the object of
  queries: when the request supplied a cursor, it was valid (at most
  \<open>largest_db_index\<close>) and the field cursor equals it; otherwise the field cursor
  is \<open>firstID\<close>, the id of the first row that the statement returned, whether
  that row is emitted or skipped (a row id of \<open>- 1\<close>, the initial value of
  \<open>firstID\<close>, is passed over), and \<open>- 1\<close> when there is no such row.
\<close>

theorem api_queries_cursor_field:
  fixes env :: "'a queries_env"
  assumes "api_queries env vars = Json_queries obj"
  shows "(vars = Some v \<and> var_cursor_ret v \<longrightarrow>
            var_cursor_unum v \<le> largest_db_index env \<and> cursor obj = int (var_cursor_unum v))
       \<and> (vars = None \<or> (vars = Some v \<and> \<not> var_cursor_ret v) \<longrightarrow>
            cursor obj = (case filter (\<lambda>r. fst r \<noteq> - 1) (db_rows env) of
                            [] \<Rightarrow> - 1 | r # _ \<Rightarrow> fst r))"
proof -
  from api_queries_object [OF assms(1)] obtain cur cs where
    rc: "(request_cursor (largest_db_index env) vars :: 'a queries_response + nat \<times> bool)
           = Inr (cur, cs)"
    and rs: "run_statement env vars cur cs = Json_queries obj" by blast
  from run_statement_object [OF rs]
  have c: "cursor obj = (if cs then int cur
             else (case filter (\<lambda>r. fst r \<noteq> - 1) (db_rows env) of
                            [] \<Rightarrow> - 1 | r # _ \<Rightarrow> fst r))"
    by (simp add: rows_loop_firstID)
  from rc c show ?thesis
    by (auto simp: request_cursor_def split: if_splits option.splits)
qed

theorem api_queries_cursor_field_witness:
  "api_queries example_env (Some (example_vars\<lparr>var_start := Some 1\<rparr>)) =
     Json_queries \<lparr>queries = [(9, ())], cursor = 10, recordsTotal = 2,
                   recordsFiltered = 2, draw = 0\<rparr>
   \<and> cursor \<lparr>queries = [(9, ())], cursor = 10, recordsTotal = 2,
           recordsFiltered = 2, draw = (0::int)\<rparr> =
     (case filter (\<lambda>r. fst r \<noteq> - 1) [(10::int, ()), (9, ())] of [] \<Rightarrow> - 1 | r # _ \<Rightarrow> fst r)"
proof -
  have r: "api_queries example_env (Some (example_vars\<lparr>var_start := Some 1\<rparr>)) =
     Json_queries \<lparr>queries = [(9, ())], cursor = 10, recordsTotal = 2,
                   recordsFiltered = 2, draw = 0\<rparr>"
    by (simp add: example_simps)
  from api_queries_cursor_field [OF r, of "example_vars\<lparr>var_start := Some 1\<rparr>"] r show ?thesis
    by (simp add: example_env_def example_vars_def)
qed

text \<open>
  Claim C9 as stated fails: without a cursor in the request and with
  \<open>start = 1\<close>, the first row that is emitted has the id 9, and the field cursor
  of the answer is 10, the id of the first row that the statement returned. Nor
  does the call repeated with that cursor give the same rows once a newer row
  (id 11) has arrived: the loop counts the newer row before it tests the cursor,
  so \<open>start = 1\<close> skips that row only, and the rows 10 and 9 are emitted.
\<close>

theorem api_queries_cursor_first_emitted_counterexample:
  "(\<exists>obj. api_queries example_env (Some (example_vars\<lparr>var_start := Some 1\<rparr>)) = Json_queries obj
      \<and> queries obj = [(9, ())] \<and> cursor obj = 10 \<and> cursor obj \<noteq> fst (hd (queries obj)))
   \<and> (\<exists>obj. api_queries
               (example_env\<lparr>largest_db_index := 11, db_rows := [(11, ()), (10, ()), (9, ())]\<rparr>)
               (Some (example_vars\<lparr>var_start := Some 1, var_cursor_ret := True,
                                     var_cursor_unum := 10\<rparr>)) = Json_queries obj
      \<and> queries obj = [(10, ()), (9, ())] \<and> cursor obj = 10)"
  by (simp add: example_simps)

section \<open>Properties of \<open>api_auth\<close>\<close>

lemma reply_events_send [simp]:
  "reply_events (send_object code obj headers auth_data events) = events"
  "reply_events (send_error code key message hint auth_data events) = events"
  by (simp_all add: send_object_def send_error_def)

lemma reply_events_status [simp]:
  "reply_events (send_api_auth_status conf api auth_data events user_id now) = events"
  by (simp add: send_api_auth_status_def Let_def split: option.splits)

lemma login_attempt_events:
  "\<exists>more. reply_events (login_attempt conf ext now api auth_data user_id password) =
       Log_info (''Password: '' @ [dquote] @ (case password of None \<Rightarrow> ''(null)'' | Some p \<Rightarrow> p)
                   @ [dquote])
       # (if pwhash conf = [] \<and> is_empty_password password then []
          else [Call_verify_login (case password of None \<Rightarrow> [] | Some p \<Rightarrow> p)])
       @ more
     \<and> (\<forall>q. Call_verify_login q \<notin> set more)"
  by (auto simp: login_attempt_def Let_def generateSID_events_def)

lemma login_attempt_events_password:
  assumes "pw \<noteq> []"
  shows "\<exists>more. reply_events (login_attempt conf ext now api auth_data user_id (Some pw)) =
           Log_info (''Password: '' @ [dquote] @ pw @ [dquote]) # Call_verify_login pw # more"
proof -
  from login_attempt_events [of conf ext now api auth_data user_id "Some pw"]
  obtain more where
    "reply_events (login_attempt conf ext now api auth_data user_id (Some pw)) =
       Log_info (''Password: '' @ [dquote] @ (case Some pw of None \<Rightarrow> ''(null)'' | Some p \<Rightarrow> p)
                   @ [dquote])
       # (if pwhash conf = [] \<and> is_empty_password (Some pw) then []
          else [Call_verify_login (case Some pw of None \<Rightarrow> [] | Some p \<Rightarrow> p)])
       @ more"
    by blast
  with assms have "reply_events (login_attempt conf ext now api auth_data user_id (Some pw)) =
           Log_info (''Password: '' @ [dquote] @ pw @ [dquote]) # Call_verify_login pw # more"
    by (simp add: is_empty_password_def)
  then show ?thesis by blast
qed

lemma posted_password_Inl:
  "posted_password api auth_data = Inl reply \<Longrightarrow> reply_events reply = []"
  by (auto simp: posted_password_def split: if_splits option.splits cJSON.splits)

lemma api_auth_events_cases:
  "reply_events (api_auth conf ext now api auth_data) = []
   \<or> (\<exists>user_id auth_data' password.
         \<not> (password = None \<and> pwhash conf \<noteq> [])
       \<and> reply_events (api_auth conf ext now api auth_data) =
           reply_events (login_attempt conf ext now api auth_data' user_id password))"
proof (cases "conn_item api \<noteq> None \<and> conn_item api \<noteq> Some []")
  case True
  then show ?thesis by (simp add: api_auth_def)
next
  case False
  let ?ad = "out_auth_data (check_client_auth conf now api False auth_data)"
  show ?thesis
  proof (cases "posted_password api ?ad")
    case (Inl reply)
    with False posted_password_Inl [OF Inl] show ?thesis
      by (simp add: api_auth_def Let_def)
  next
    case (Inr json_password)
    let ?pw = "if is_empty_password json_password then basic_auth ext api else json_password"
    from False Inr
    have "reply_events (api_auth conf ext now api auth_data) = []
        \<or> (\<not> (?pw = None \<and> pwhash conf \<noteq> [])
            \<and> reply_events (api_auth conf ext now api auth_data) =
                reply_events (login_attempt conf ext now api ?ad
                  (out_result (check_client_auth conf now api False auth_data)) ?pw))"
      by (simp add: api_auth_def Let_def)
    then show ?thesis by blast
  qed
qed

lemma api_auth_post_password:
  assumes "conn_method api = HTTP_POST"
    and "conn_item api = None \<or> conn_item api = Some []"
    and "payload_json api = Some j"
    and "item_password j = Some (cJSON_String pw)"
    and "pw \<noteq> []"
  shows "api_auth conf ext now api auth_data =
           login_attempt conf ext now api
             (out_auth_data (check_client_auth conf now api False auth_data))
             (out_result (check_client_auth conf now api False auth_data)) (Some pw)"
proof -
  from assms have "posted_password api
      (out_auth_data (check_client_auth conf now api False auth_data)) = Inr (Some pw)"
    by (simp add: posted_password_def)
  with assms show ?thesis
    by (auto simp: api_auth_def Let_def is_empty_password_def)
qed

text \<open>
  Claim C10. Every call of \<open>verify_login\<close> that \<open>api_auth\<close> makes is directly
  preceded by a line at info level that holds the password in plain text:
  whenever the events of a request contain the verification of a password
  \<open>p\<close>, they start with the line \<open>Password: "p"\<close> followed by that verification.
  A POST request with a non-empty string password in its JSON body always gets
  there, whatever \<open>verify_login\<close> answers, so also for a failed attempt; and two
  such requests with different passwords never leave the same events: the log
  depends on the secret.
\<close>

theorem api_auth_logs_password:
  "(Call_verify_login p \<in> set (reply_events (api_auth conf ext now api auth_data)) \<longrightarrow>
      (\<exists>more. reply_events (api_auth conf ext now api auth_data) =
         Log_info (''Password: '' @ [dquote] @ p @ [dquote]) # Call_verify_login p # more))
   \<and> (conn_method api = HTTP_POST \<and> (conn_item api = None \<or> conn_item api = Some [])
        \<and> payload_json api = Some j \<and> item_password j = Some (cJSON_String pw) \<and> pw \<noteq> [] \<longrightarrow>
      (\<exists>more. reply_events (api_auth conf ext now api auth_data) =
         Log_info (''Password: '' @ [dquote] @ pw @ [dquote]) # Call_verify_login pw # more)
      \<and> (\<forall>api2 j2 pw2 auth_data2.
            conn_method api2 = HTTP_POST \<and> (conn_item api2 = None \<or> conn_item api2 = Some [])
            \<and> payload_json api2 = Some j2 \<and> item_password j2 = Some (cJSON_String pw2)
            \<and> pw2 \<noteq> [] \<and> pw2 \<noteq> pw \<longrightarrow>
            reply_events (api_auth conf ext now api2 auth_data2)
              \<noteq> reply_events (api_auth conf ext now api auth_data)))"
proof (intro conjI impI)
  assume mem: "Call_verify_login p \<in> set (reply_events (api_auth conf ext now api auth_data))"
  then have "reply_events (api_auth conf ext now api auth_data) \<noteq> []" by auto
  with api_auth_events_cases [of conf ext now api auth_data]
  obtain user_id auth_data' password where
    pw: "\<not> (password = None \<and> pwhash conf \<noteq> [])"
    and ev: "reply_events (api_auth conf ext now api auth_data) =
           reply_events (login_attempt conf ext now api auth_data' user_id password)"
    by blast
  from login_attempt_events [of conf ext now api auth_data' user_id password]
  obtain more where
    le: "reply_events (login_attempt conf ext now api auth_data' user_id password) =
       Log_info (''Password: '' @ [dquote] @ (case password of None \<Rightarrow> ''(null)'' | Some p \<Rightarrow> p)
                   @ [dquote])
       # (if pwhash conf = [] \<and> is_empty_password password then []
          else [Call_verify_login (case password of None \<Rightarrow> [] | Some p \<Rightarrow> p)])
       @ more"
    and nm: "\<forall>q. Call_verify_login q \<notin> set more"
    by blast
  from mem ev le nm pw
  have ns: "\<not> (pwhash conf = [] \<and> is_empty_password password)" and sp: "password = Some p"
    by (auto simp: is_empty_password_def split: if_splits option.splits)
  from le ns sp
  have "reply_events (login_attempt conf ext now api auth_data' user_id password) =
       Log_info (''Password: '' @ [dquote] @ p @ [dquote]) # Call_verify_login p # more"
    by auto
  with ev show "\<exists>more. reply_events (api_auth conf ext now api auth_data) =
         Log_info (''Password: '' @ [dquote] @ p @ [dquote]) # Call_verify_login p # more"
    by simp
next
  assume a: "conn_method api = HTTP_POST \<and> (conn_item api = None \<or> conn_item api = Some [])
        \<and> payload_json api = Some j \<and> item_password j = Some (cJSON_String pw) \<and> pw \<noteq> []"
  then have eq: "api_auth conf ext now api auth_data =
           login_attempt conf ext now api
             (out_auth_data (check_client_auth conf now api False auth_data))
             (out_result (check_client_auth conf now api False auth_data)) (Some pw)"
    using api_auth_post_password [where api = api and j = j and pw = pw] by simp
  from a have ne: "pw \<noteq> []" by simp
  from login_attempt_events_password [OF ne, of conf ext now api
      "out_auth_data (check_client_auth conf now api False auth_data)"
      "out_result (check_client_auth conf now api False auth_data)"]
  show 1: "\<exists>more. reply_events (api_auth conf ext now api auth_data) =
         Log_info (''Password: '' @ [dquote] @ pw @ [dquote]) # Call_verify_login pw # more"
    by (simp only: eq)
  show "\<forall>api2 j2 pw2 auth_data2.
            conn_method api2 = HTTP_POST \<and> (conn_item api2 = None \<or> conn_item api2 = Some [])
            \<and> payload_json api2 = Some j2 \<and> item_password j2 = Some (cJSON_String pw2)
            \<and> pw2 \<noteq> [] \<and> pw2 \<noteq> pw \<longrightarrow>
            reply_events (api_auth conf ext now api2 auth_data2)
              \<noteq> reply_events (api_auth conf ext now api auth_data)"
  proof (intro allI impI)
    fix api2 :: ftl_conn and j2 :: json_payload and pw2 :: string and auth_data2 :: "session list"
    assume b: "conn_method api2 = HTTP_POST \<and> (conn_item api2 = None \<or> conn_item api2 = Some [])
            \<and> payload_json api2 = Some j2 \<and> item_password j2 = Some (cJSON_String pw2)
            \<and> pw2 \<noteq> [] \<and> pw2 \<noteq> pw"
    then have eq2: "api_auth conf ext now api2 auth_data2 =
           login_attempt conf ext now api2
             (out_auth_data (check_client_auth conf now api2 False auth_data2))
             (out_result (check_client_auth conf now api2 False auth_data2)) (Some pw2)"
      using api_auth_post_password [where api = api2 and j = j2 and pw = pw2] by simp
    from b have ne2: "pw2 \<noteq> []" by simp
    from login_attempt_events_password [OF ne2, of conf ext now api2
      "out_auth_data (check_client_auth conf now api2 False auth_data2)"
      "out_result (check_client_auth conf now api2 False auth_data2)"]
    obtain more2 where "reply_events (api_auth conf ext now api2 auth_data2) =
         Log_info (''Password: '' @ [dquote] @ pw2 @ [dquote]) # Call_verify_login pw2 # more2"
      unfolding eq2 by blast
    with 1 b show "reply_events (api_auth conf ext now api2 auth_data2)
              \<noteq> reply_events (api_auth conf ext now api auth_data)"
      by auto
  qed
qed

theorem api_auth_logs_password_witness:
  "verify_login \<lparr>verify_login = (\<lambda>_. PASSWORD_INCORRECT), verifyTOTP = (\<lambda>_. False),
        base64_decode = (\<lambda>_. None), random_sid = Some ''s'', random_csrf = Some ''c''\<rparr> ''secret''
     = PASSWORD_INCORRECT
   \<and> Call_verify_login ''secret'' \<in> set (reply_events (api_auth
      \<lparr>localAPIauth = True, pwhash = ''hash'', totp_secret = [], session_timeout_v = 300,
        session_timeout_d = 300\<rparr>
      \<lparr>verify_login = (\<lambda>_. PASSWORD_INCORRECT), verifyTOTP = (\<lambda>_. False),
        base64_decode = (\<lambda>_. None), random_sid = Some ''s'', random_csrf = Some ''c''\<rparr>
      1000
      \<lparr>request_remote_addr = ''10.0.0.7'', request_is_ssl = False, conn_method = HTTP_POST,
        conn_item = None, payload_avail = True, payload_form_sid = None,
        payload_json = Some \<lparr>item_sid = None, item_password = Some (cJSON_String ''secret''),
                              item_totp = None\<rparr>,
        payload_json_error = None, header_sid = None, header_X_FTL_SID = None,
        header_X_CSRF_TOKEN = None, header_Authorization = None, header_user_agent = None,
        cookie_sid = None, snprintf_ok = True\<rparr>
      []))
   \<and> (\<exists>more. reply_events (api_auth
      \<lparr>localAPIauth = True, pwhash = ''hash'', totp_secret = [], session_timeout_v = 300,
        session_timeout_d = 300\<rparr>
      \<lparr>verify_login = (\<lambda>_. PASSWORD_INCORRECT), verifyTOTP = (\<lambda>_. False),
        base64_decode = (\<lambda>_. None), random_sid = Some ''s'', random_csrf = Some ''c''\<rparr>
      1000
      \<lparr>request_remote_addr = ''10.0.0.7'', request_is_ssl = False, conn_method = HTTP_POST,
        conn_item = None, payload_avail = True, payload_form_sid = None,
        payload_json = Some \<lparr>item_sid = None, item_password = Some (cJSON_String ''secret''),
                              item_totp = None\<rparr>,
        payload_json_error = None, header_sid = None, header_X_FTL_SID = None,
        header_X_CSRF_TOKEN = None, header_Authorization = None, header_user_agent = None,
        cookie_sid = None, snprintf_ok = True\<rparr>
      []) =
        Log_info (''Password: '' @ [dquote] @ ''secret'' @ [dquote])
        # Call_verify_login ''secret'' # more)"
proof -
  let ?conf = "\<lparr>localAPIauth = True, pwhash = ''hash'', totp_secret = [], session_timeout_v = 300,
        session_timeout_d = 300\<rparr>"
  let ?ext = "\<lparr>verify_login = (\<lambda>_. PASSWORD_INCORRECT), verifyTOTP = (\<lambda>_. False),
        base64_decode = (\<lambda>_. None), random_sid = Some ''s'', random_csrf = Some ''c''\<rparr>"
  let ?j = "\<lparr>item_sid = None, item_password = Some (cJSON_String ''secret''), item_totp = None\<rparr>"
  let ?api = "\<lparr>request_remote_addr = ''10.0.0.7'', request_is_ssl = False, conn_method = HTTP_POST,
        conn_item = None, payload_avail = True, payload_form_sid = None,
        payload_json = Some ?j,
        payload_json_error = None, header_sid = None, header_X_FTL_SID = None,
        header_X_CSRF_TOKEN = None, header_Authorization = None, header_user_agent = None,
        cookie_sid = None, snprintf_ok = True\<rparr>"
  have ev: "\<exists>more. reply_events (api_auth ?conf ?ext 1000 ?api []) =
        Log_info (''Password: '' @ [dquote] @ ''secret'' @ [dquote])
        # Call_verify_login ''secret'' # more"
    using api_auth_logs_password [where api = ?api and j = ?j and pw = "''secret''"
        and conf = ?conf and ext = ?ext and now = 1000 and auth_data = "[]"]
    by simp
  then have "Call_verify_login ''secret'' \<in> set (reply_events (api_auth ?conf ?ext 1000 ?api []))"
    by auto
  with ev show ?thesis by simp
qed

section \<open>Properties of \<open>process_pihole_log\<close>\<close>

lemma same_status_data_refl [simp]: "same_status_data d d"
  by (simp add: same_status_data_def)

lemma same_status_data_trans:
  "same_status_data d d' \<Longrightarrow> same_status_data d' d'' \<Longrightarrow> same_status_data d d''"
  by (simp add: same_status_data_def)

lemma same_status_data_invariant:
  "same_status_data d d' \<Longrightarrow> status_invariant d' = status_invariant d"
  by (simp add: same_status_data_def status_invariant_def status_counters_sum_def
        forwarded_queries_def)

lemma add_domain_same: "same_status_data d (fst (add_domain domain d))"
  by (simp add: add_domain_def same_status_data_def Let_def split: option.splits)

lemma add_client_same: "same_status_data d (fst (add_client ext client d))"
  by (simp add: add_client_def same_status_data_def Let_def split: option.splits)

lemma process_forwarded_same: "same_status_data d (process_forwarded ext readbuffer d)"
  by (simp add: process_forwarded_def same_status_data_def Let_def split: option.splits)

lemma line_status_range: "line_status l domain = Some s \<Longrightarrow> s \<in> {1, 2, 3, 4}"
  by (auto simp: line_status_def split: if_splits)

lemma scan_status_range: "scan_status domain ls \<in> {0, 1, 2, 3, 4}"
proof (induction ls)
  case Nil
  then show ?case by simp
next
  case (Cons l ls)
  show ?case
  proof (cases "line_status l domain")
    case None
    with Cons show ?thesis by simp
  next
    case (Some s)
    with line_status_range [OF Some] show ?thesis by auto
  qed
qed

lemma find_status_range: "find_status domain following \<in> {0, 1, 2, 3, 4}"
  unfolding find_status_def by (rule scan_status_range)

lemma forwarded_queries_admit:
  assumes "log_queries d' = (log_queries d)(c_queries (counters d) := q)"
    and "c_queries (counters d') = c_queries (counters d) + 1"
  shows "forwarded_queries d' = forwarded_queries d + (if lq_status q = 2 then 1 else 0)"
proof -
  let ?n = "c_queries (counters d)"
  have "filter (\<lambda>i. lq_status (log_queries d' i) = 2) [0 ..< ?n]
          = filter (\<lambda>i. lq_status (log_queries d i) = 2) [0 ..< ?n]"
    by (rule filter_cong) (simp_all add: assms(1))
  then show ?thesis
    by (simp add: forwarded_queries_def assms)
qed

lemma admit_invariant:
  assumes inv: "status_invariant d2"
    and st: "status \<in> {0, 1, 2, 3, 4}"
    and lq: "lq_status q = status"
    and d3: "log_queries d3 = (log_queries d2)(c_queries (counters d2) := q)"
            "counters d3 = (counters d2)\<lparr>c_queries := c_queries (counters d2) + 1\<rparr>"
  shows "status_invariant (count_status status timeidx domainID d3)"
proof -
  let ?d4 = "count_status status timeidx domainID d3"
  have q4: "log_queries ?d4 = log_queries d3" "c_queries (counters ?d4) = c_queries (counters d3)"
    by (simp_all add: count_status_def Let_def)
  have "forwarded_queries ?d4 = forwarded_queries d3"
    by (simp add: forwarded_queries_def q4)
  also have "\<dots> = forwarded_queries d2 + (if lq_status q = 2 then 1 else 0)"
    by (rule forwarded_queries_admit) (simp_all add: d3)
  finally have f: "forwarded_queries ?d4 = forwarded_queries d2 + (if status = 2 then 1 else 0)"
    by (simp add: lq)
  have s: "status_counters_sum (counters ?d4) =
             status_counters_sum (counters d2) + (if status = 2 then 0 else 1)"
    using st by (auto simp: count_status_def Let_def status_counters_sum_def d3)
  have "c_queries (counters ?d4) = c_queries (counters d2) + 1"
    by (simp add: q4 d3)
  with inv f s show ?thesis
    by (simp add: status_invariant_def)
qed

lemma count_type_same: "same_status_data d (count_type type d)"
  by (simp add: count_type_def same_status_data_def)

lemma save_query_fields:
  "log_queries (save_query q timeidx d) = (log_queries d)(c_queries (counters d) := q)"
  "counters (save_query q timeidx d) = (counters d)\<lparr>c_queries := c_queries (counters d) + 1\<rparr>"
  by (simp_all add: save_query_def)

lemma admit_query_invariant:
  assumes "status_invariant d"
  shows "status_invariant
           (count_status (find_status domain following) timeidx domainID
              (save_query \<lparr>lq_timestamp = t, lq_type = type,
                            lq_status = find_status domain following,
                            lq_domainID = domainID, lq_clientID = clientID\<rparr> timeidx d))"
  by (rule admit_invariant [OF assms find_status_range]) (simp_all add: save_query_fields)

lemma process_query_invariant:
  assumes "status_invariant d"
  shows "status_invariant (process_query ext readbuffer following d)"
proof -
  define timeidx where "timeidx = (tm_min ext (take 15 readbuffer)
      - tm_min ext (take 15 readbuffer) mod 10) div 10 + 6 * tm_hour ext (take 15 readbuffer)"
  define d' where "d' = d\<lparr>counters := (counters d)
                  \<lparr>c_overtime := (if timeidx > c_overtime (counters d) then timeidx
                                  else c_overtime (counters d))\<rparr>\<rparr>"
  have "same_status_data d d'" by (simp add: same_status_data_def d'_def)
  with assms have inv: "status_invariant d'" by (simp add: same_status_data_invariant)
  have unfold: "process_query ext readbuffer following d =
      (case parse_query readbuffer of
           None \<Rightarrow> d'
         | Some (domain, client) \<Rightarrow>
             (let type = query_type readbuffer;
                  d1 = count_type type d';
                  status = find_status domain following;
                  dd = add_domain domain d1;
                  dc = add_client ext client (fst dd);
                  q = \<lparr>lq_timestamp = mktime ext (take 15 readbuffer), lq_type = type,
                       lq_status = status, lq_domainID = snd dd, lq_clientID = snd dc\<rparr>
              in count_status status timeidx (snd dd) (save_query q timeidx (fst dc))))"
    unfolding process_query_def d'_def timeidx_def Let_def ..
  show ?thesis
  proof (cases "parse_query readbuffer")
    case None
    with inv unfold show ?thesis by simp
  next
    case (Some p)
    obtain domain client where p: "p = (domain, client)" by (cases p)
    let ?dd = "add_domain domain (count_type (query_type readbuffer) d')"
    let ?dc = "add_client ext client (fst ?dd)"
    have "same_status_data d' (fst ?dc)"
      by (blast intro: same_status_data_trans count_type_same add_domain_same add_client_same)
    with inv have "status_invariant (fst ?dc)" by (simp add: same_status_data_invariant)
    from admit_query_invariant [OF this] Some p unfold show ?thesis
      by (simp add: Let_def)
  qed
qed

lemma process_line_invariant:
  "status_invariant d \<Longrightarrow> status_invariant (process_line ext readbuffer following d)"
proof -
  assume inv: "status_invariant d"
  have ptr: "same_status_data d (d\<lparr>counters := (counters d)\<lparr>c_PTR := c_PTR (counters d) + 1\<rparr>\<rparr>)"
    and srv: "same_status_data d (d\<lparr>counters := (counters d)\<lparr>c_SRV := c_SRV (counters d) + 1\<rparr>\<rparr>)"
    by (simp_all add: same_status_data_def)
  from inv ptr srv process_forwarded_same [of d ext readbuffer]
    process_query_invariant [OF inv, of ext readbuffer following]
  show ?thesis
    by (simp add: process_line_def same_status_data_invariant)
qed

lemma process_pihole_log_invariant:
  "status_invariant d \<Longrightarrow> status_invariant (process_pihole_log ext lines d)"
  by (induction lines arbitrary: d) (simp_all add: process_line_invariant)

text \<open>
  Claim C3, as amended. The parser keeps a counter for the status unknown (0),
  blocked (1), cached (3) and blocked by a wildcard (4), and none for the status
  forwarded (2). Starting from data in which the sum of these four counters and
  the number of stored queries with the status forwarded is
  \<open>counters.queries\<close>, as it is for the zeroed data, this is again so after
  any sequence of lines of the log: every admitted query is counted under
  exactly one status counter, or under none when it was forwarded.
\<close>

theorem process_pihole_log_status_counters:
  assumes "status_counters_sum (counters d) + forwarded_queries d = c_queries (counters d)"
  shows "status_counters_sum (counters (process_pihole_log ext lines d))
           + forwarded_queries (process_pihole_log ext lines d)
         = c_queries (counters (process_pihole_log ext lines d))"
  using process_pihole_log_invariant [of d ext lines] assms
  by (simp add: status_invariant_def)

theorem process_pihole_log_status_counters_witness:
  "status_counters_sum (counters zero_data) + forwarded_queries zero_data
     = c_queries (counters zero_data)
   \<and> status_counters_sum (counters (process_pihole_log example_extern example_log zero_data))
       + forwarded_queries (process_pihole_log example_extern example_log zero_data)
     = c_queries (counters (process_pihole_log example_extern example_log zero_data))"
proof -
  have z: "status_counters_sum (counters zero_data) + forwarded_queries zero_data
     = c_queries (counters zero_data)"
    by (simp add: zero_data_def zero_counters_def status_counters_sum_def forwarded_queries_def)
  from process_pihole_log_status_counters [OF z] z show ?thesis by simp
qed

text \<open>
  Claim C3 as stated fails: after the two forwarded queries of the example,
  \<open>counters.queries\<close> is 2 and the counters per status add up to 0. The
  counter \<open>counters.forwarded\<close>, which counts the upstream servers seen, is 1.
\<close>

theorem process_pihole_log_forwarded_counterexample:
  "c_queries (counters (process_pihole_log example_extern example_log zero_data)) = 2
   \<and> status_counters_sum (counters (process_pihole_log example_extern example_log zero_data)) = 0
   \<and> c_forwarded (counters (process_pihole_log example_extern example_log zero_data)) = 1"
  by code_simp

section \<open>Properties of \<open>runGC\<close>\<close>

lemma c_rem_bounds: "0 \<le> a \<Longrightarrow> 0 < b \<Longrightarrow> 0 \<le> c_rem a b \<and> c_rem a b < b"
  by (cases "a = 0") (simp_all add: c_rem_def)

lemma gc_mintime_example:
  assumes "- 3600 \<le> GCdelay ext" "GCdelay ext \<le> 3600"
    and "0 < GCinterval ext" "GCinterval ext \<le> 3600" "maxHistory ext = 86400"
  shows "1699906400 \<le> gc_mintime ext 1700000000 False \<and> gc_mintime ext 1700000000 False \<le> 1699917200"
proof -
  let ?m = "1700000000 - (GCdelay ext + int (maxHistory ext))"
  from assms have "0 \<le> ?m" by simp
  from c_rem_bounds [OF this assms(3)] assms show ?thesis
    by (simp add: gc_mintime_def Let_def)
qed

lemma gc_queries_remove:
  "gc_queries (gc_remove_query ext i query d) =
     (gc_queries d)[i := (gc_queries d ! i)\<lparr>q_status := QUERY_UNKNOWN\<rparr>]"
  "counters_queries (gc_remove_query ext i query d) = counters_queries d"
  by (simp_all add: gc_remove_query_def query_set_status_def Let_def)

text \<open>The array of queries and the counter after the loop, for the example.\<close>

lemma gc_loop_example:
  assumes "1699906400 \<le> m" "m \<le> 1699917200"
    and "gc_queries d = gc_queries gc_example"
    and "counters_queries d = 3"
  shows "gc_queries (fst (gc_loop ext m [0, 1, 2] d 0)) =
           [(gc_example_query 1699900000)\<lparr>q_status := QUERY_UNKNOWN\<rparr>,
            (gc_example_query 1699900100)\<lparr>q_status := QUERY_UNKNOWN\<rparr>,
            gc_example_query 1699999000, zero_query]
       \<and> counters_queries (fst (gc_loop ext m [0, 1, 2] d 0)) = 3
       \<and> snd (gc_loop ext m [0, 1, 2] d 0) = 2"
proof -
  from assms have t: "\<not> 1699900000 > real_of_int m" "\<not> 1699900100 > real_of_int m" "1699999000 > real_of_int m"
    by simp_all
  let ?d1 = "gc_remove_query ext 0 (gc_example_query 1699900000) d"
  let ?d2 = "gc_remove_query ext 1 (gc_example_query 1699900100) ?d1"
  have g0: "gc_queries d = [gc_example_query 1699900000, gc_example_query 1699900100,
              gc_example_query 1699999000, zero_query]"
    by (simp add: assms(3) gc_example_def)
  then have q0: "getQuery d 0 = Some (gc_example_query 1699900000)"
    by (simp add: getQuery_def)
  have g1: "gc_queries ?d1 = [(gc_example_query 1699900000)\<lparr>q_status := QUERY_UNKNOWN\<rparr>,
              gc_example_query 1699900100, gc_example_query 1699999000, zero_query]"
    by (simp add: gc_queries_remove g0)
  then have q1: "getQuery ?d1 1 = Some (gc_example_query 1699900100)"
    by (simp add: getQuery_def)
  have g2: "gc_queries ?d2 = [(gc_example_query 1699900000)\<lparr>q_status := QUERY_UNKNOWN\<rparr>,
              (gc_example_query 1699900100)\<lparr>q_status := QUERY_UNKNOWN\<rparr>,
              gc_example_query 1699999000, zero_query]"
    by (simp add: gc_queries_remove g0)
  then have q2: "getQuery ?d2 2 = Some (gc_example_query 1699999000)"
    by (simp add: getQuery_def)
  have c2: "counters_queries ?d2 = 3"
    by (simp add: gc_queries_remove assms(4))
  have ts: "q_timestamp (gc_example_query x) = x" for x
    by (simp add: gc_example_query_def)
  have "gc_loop ext m [0, 1, 2] d 0 = (?d2, 2)"
    using q0 q1 q2 t by (simp add: ts)
  with g2 c2 show ?thesis by simp
qed

text \<open>
  Claim C6, at an input where the code departs from it. The run is a normal one
  at the time 1700000000 with a \<open>maxHistory\<close> of one day, for every
  \<open>GCdelay\<close> of at most an hour either way and every \<open>GCinterval\<close> of at most an
  hour; \<open>mintime\<close> then lies between the two old queries and the recent one.
  The loop removes the two old queries. \<open>memmove\<close> then copies from the slot
  \<open>removed - 1\<close>: afterwards \<open>counters->queries\<close> is 1 and the one live query
  is the second of the removed queries, with its status reset and its time
  stamp not after \<open>mintime\<close>, while the recent query is gone.
\<close>

theorem runGC_keeps_expired_query:
  assumes "- 3600 \<le> GCdelay ext" and "GCdelay ext \<le> 3600"
    and "0 < GCinterval ext" and "GCinterval ext \<le> 3600"
    and "maxHistory ext = 86400"
  shows "counters_queries (fst (runGC ext 1700000000 lastGCrun False gc_example)) = 1
     \<and> live_queries (fst (runGC ext 1700000000 lastGCrun False gc_example)) =
         [(gc_example_query 1699900100)\<lparr>q_status := QUERY_UNKNOWN\<rparr>]
     \<and> 1699900100 \<le> gc_mintime ext 1700000000 False
     \<and> gc_mintime ext 1700000000 False < 1699999000"
proof -
  let ?m = "gc_mintime ext 1700000000 False"
  from gc_mintime_example [OF assms] have m: "1699906400 \<le> ?m" "?m \<le> 1699917200" by simp_all
  let ?d = "gc_example\<lparr>doGC := False\<rparr>"
  let ?l = "gc_loop ext ?m [0, 1, 2] ?d 0"
  have "gc_queries ?d = gc_queries gc_example" "counters_queries ?d = 3"
    by (simp_all add: gc_example_def)
  from gc_loop_example [OF m this, of ext]
  have l: "gc_queries (fst ?l) =
           [(gc_example_query 1699900000)\<lparr>q_status := QUERY_UNKNOWN\<rparr>,
            (gc_example_query 1699900100)\<lparr>q_status := QUERY_UNKNOWN\<rparr>,
            gc_example_query 1699999000, zero_query]"
    "counters_queries (fst ?l) = 3" "snd ?l = 2"
    by simp_all
  have idx: "[0 ..< nat (counters_queries gc_example)] = [0, 1, 2]"
    by (simp add: gc_example_def upt_rec)
  let ?d1 = "gc_move_memory (snd ?l) (fst ?l)"
  from l have mv: "counters_queries ?d1 = 1"
    "gc_queries ?d1 = [(gc_example_query 1699900100)\<lparr>q_status := QUERY_UNKNOWN\<rparr>,
                       zero_query, zero_query, zero_query]"
    by (simp_all add: gc_move_memory_def getQuery_def Let_def numeral_3_eq_3)
  have "counters_queries (fst (runGC ext 1700000000 lastGCrun False gc_example)) = counters_queries ?d1"
    "gc_queries (fst (runGC ext 1700000000 lastGCrun False gc_example)) = gc_queries ?d1"
    by (simp_all add: runGC_def Let_def idx del: gc_loop.simps)
  with mv m show ?thesis
    by (simp add: live_queries_def)
qed

theorem runGC_keeps_expired_query_witness:
  "gc_mintime \<lparr>GCdelay = - 60, GCinterval = 600, maxHistory = 86400,
                getOverTimeID = (\<lambda>t. \<lfloor>t / 600\<rfloor>),
                change_clientcount = (\<lambda>c total blocked idx m.
                   c\<lparr>client_count := client_count c + total,
                     client_blockedcount := client_blockedcount c + blocked\<rparr>),
                moveOverTimeMemory = (\<lambda>mintime ot. ot)\<rparr> 1700000000 False = 1699913400
   \<and> live_queries (fst (runGC \<lparr>GCdelay = - 60, GCinterval = 600, maxHistory = 86400,
                getOverTimeID = (\<lambda>t. \<lfloor>t / 600\<rfloor>),
                change_clientcount = (\<lambda>c total blocked idx m.
                   c\<lparr>client_count := client_count c + total,
                     client_blockedcount := client_blockedcount c + blocked\<rparr>),
                moveOverTimeMemory = (\<lambda>mintime ot. ot)\<rparr> 1700000000 (Some 1699999800) False gc_example)) =
         [(gc_example_query 1699900100)\<lparr>q_status := QUERY_UNKNOWN\<rparr>]"
proof -
  let ?ext = "\<lparr>GCdelay = - 60, GCinterval = 600, maxHistory = 86400,
                getOverTimeID = (\<lambda>t. \<lfloor>t / 600\<rfloor>),
                change_clientcount = (\<lambda>c total blocked idx m.
                   c\<lparr>client_count := client_count c + total,
                     client_blockedcount := client_blockedcount c + blocked\<rparr>),
                moveOverTimeMemory = (\<lambda>mintime ot. ot)\<rparr>"
  have "gc_mintime ?ext 1700000000 False = 1699913400"
    by (simp add: gc_mintime_def c_rem_def Let_def)
  moreover have "live_queries (fst (runGC ?ext 1700000000 (Some 1699999800) False gc_example)) =
         [(gc_example_query 1699900100)\<lparr>q_status := QUERY_UNKNOWN\<rparr>]"
    using runGC_keeps_expired_query [of ?ext "Some 1699999800"] by simp
  ultimately show ?thesis by simp
qed

end
